theory Spec2Isabelle
  imports Complex_Main
begin

section \<open>Text and regular expressions as the source uses them\<close>

text \<open>
  The source (\<^verbatim>\<open>wa-server.js\<close>) works on JavaScript strings with regular
  expressions.  Texts are modelled as \<^typ>\<open>string\<close>: sequences of characters with
  codes 0 to 255, read as the Latin-1 code points U+0000 to U+00FF (so
  \<^verbatim>\<open>CHR 0xF3\<close> is the letter o with acute accent and \<^verbatim>\<open>CHR 0xA0\<close> the
  no-break space).  Characters beyond U+00FF that the source mentions (the narrow
  no-break space U+202F and the typographic quotes U+2018, U+2019, U+201C, U+201D) are
  outside this alphabet: the replacement steps for them are identities on every
  modelled text and are left out where they stand alone.

  Regular expressions are a datatype that follows the JavaScript syntax
  constructor by constructor; matching is the backtracking search of
  ECMAScript: alternatives are tried left to right, quantifiers are greedy, and
  the first success in that order is the match.
\<close>

datatype citem = C char | R char char

fun in_item :: "char \<Rightarrow> citem \<Rightarrow> bool" where
  "in_item c (C d) = (c = d)"
| "in_item c (R lo hi) = ((of_char lo :: int) \<le> of_char c \<and> (of_char c :: int) \<le> of_char hi)"

definition in_cls :: "citem list \<Rightarrow> char \<Rightarrow> bool" where
  "in_cls cs c = list_ex (in_item c) cs"

text \<open>Case folding of the \<^verbatim>\<open>i\<close> flag (without \<^verbatim>\<open>u\<close>): a character is compared
  through \<^verbatim>\<open>toUpperCase\<close>.  Inside Latin-1 the pairs are a-z/A-Z and
  U+00E0-U+00FE/U+00C0-U+00DE (U+00F7 and U+00D7 excepted); the upper-case forms of
  U+00B5, U+00DF and U+00FF are outside Latin-1 or not single characters, so these
  three only match themselves.\<close>

definition up_char :: "char \<Rightarrow> char" where
  "up_char c = (let n = (of_char c :: int) in
     if (97 \<le> n \<and> n \<le> 122) \<or> (224 \<le> n \<and> n \<le> 254 \<and> n \<noteq> 247) then char_of (n - 32) else c)"

definition low_char :: "char \<Rightarrow> char" where
  "low_char c = (let n = (of_char c :: int) in
     if (65 \<le> n \<and> n \<le> 90) \<or> (192 \<le> n \<and> n \<le> 222 \<and> n \<noteq> 215) then char_of (n + 32) else c)"

definition cmatch :: "bool \<Rightarrow> citem list \<Rightarrow> char \<Rightarrow> bool" where
  "cmatch ic cs c = (in_cls cs c \<or> (ic \<and> (in_cls cs (up_char c) \<or> in_cls cs (low_char c))))"

text \<open>The character classes \<^verbatim>\<open>\d\<close>, \<^verbatim>\<open>\w\<close> and \<^verbatim>\<open>\s\<close> (the members of
  \<^verbatim>\<open>\s\<close> below U+0100: tab, line feed, vertical tab, form feed, carriage return,
  space, no-break space).\<close>

definition cd :: "citem list" where
  "cd = [R (CHR ''0'') (CHR ''9'')]"

definition cw :: "citem list" where
  "cw = [R (CHR ''a'') (CHR ''z''), R (CHR ''A'') (CHR ''Z''), R (CHR ''0'') (CHR ''9''), C (CHR ''_'')]"

definition cs :: "citem list" where
  "cs = [R (CHR 0x09) (CHR 0x0D), C (CHR '' ''), C (CHR 0xA0)]"

datatype rx =
    Eps
  | In "citem list"
  | NotIn "citem list"
  | Seq rx rx
  | Alt rx rx
  | Star rx
  | Grp nat rx
  | WordB
  | Bol
  | Eol
  | Ahead rx
  | NotAhead rx
  | Behind "citem list"

text \<open>A position in a text is the reversed part before it and the part after it; a
  matcher state adds the capture groups recorded so far (latest first).\<close>

type_synonym mstate = "string \<times> string \<times> (nat \<times> string) list"

definition is_word :: "char \<Rightarrow> bool" where
  "is_word c = in_cls cw c"

definition at_boundary :: "string \<Rightarrow> string \<Rightarrow> bool" where
  "at_boundary b a =
     ((case b of [] \<Rightarrow> False | p # _ \<Rightarrow> is_word p) \<noteq> (case a of [] \<Rightarrow> False | n # _ \<Rightarrow> is_word n))"

text \<open>\<open>rm ic r st\<close> lists the states after every way \<open>r\<close> matches at \<open>st\<close>, in the
  order the backtracking search tries them.  An iteration of \<open>Star\<close> that consumes
  nothing is rejected, as ECMAScript does.\<close>

function rm :: "bool \<Rightarrow> rx \<Rightarrow> mstate \<Rightarrow> mstate list" where
  "rm ic Eps st = [st]"
| "rm ic (In k) (b, a, g) =
     (case a of [] \<Rightarrow> [] | c # a' \<Rightarrow> if cmatch ic k c then [(c # b, a', g)] else [])"
| "rm ic (NotIn k) (b, a, g) =
     (case a of [] \<Rightarrow> [] | c # a' \<Rightarrow> if cmatch ic k c then [] else [(c # b, a', g)])"
| "rm ic (Seq r1 r2) st = concat (map (rm ic r2) (rm ic r1 st))"
| "rm ic (Alt r1 r2) st = rm ic r1 st @ rm ic r2 st"
| "rm ic (Star r) st =
     concat (map (\<lambda>st'. if length (fst (snd st')) < length (fst (snd st))
                         then rm ic (Star r) st' else [])
                 (rm ic r st)) @ [st]"
| "rm ic (Grp n r) (b, a, g) =
     map (\<lambda>(b', a', g'). (b', a', (n, rev (take (length b' - length b) b')) # g'))
         (rm ic r (b, a, g))"
| "rm ic WordB (b, a, g) = (if at_boundary b a then [(b, a, g)] else [])"
| "rm ic Bol (b, a, g) = (if b = [] then [(b, a, g)] else [])"
| "rm ic Eol (b, a, g) = (if a = [] then [(b, a, g)] else [])"
| "rm ic (Ahead r) st = (if rm ic r st = [] then [] else [st])"
| "rm ic (NotAhead r) st = (if rm ic r st = [] then [st] else [])"
| "rm ic (Behind k) (b, a, g) =
     (case b of [] \<Rightarrow> [] | p # _ \<Rightarrow> if cmatch ic k p then [(b, a, g)] else [])"
  by pat_completeness auto
termination
  by (relation "inv_image (less_than <*lex*> less_than)
                  (\<lambda>(ic, r, st). (size r, length (fst (snd st))))") auto

declare rm.simps [simp del]


text \<open>A literal piece of a pattern, and the quantifiers \<^verbatim>\<open>+\<close>, \<^verbatim>\<open>?\<close>,
  \<^verbatim>\<open>{m,n}\<close> and \<^verbatim>\<open>{m,}\<close> (all greedy).\<close>

fun lit :: "string \<Rightarrow> rx" where
  "lit [] = Eps"
| "lit [c] = In [C c]"
| "lit (c # s) = Seq (In [C c]) (lit s)"

definition Plus :: "rx \<Rightarrow> rx" where
  "Plus r = Seq r (Star r)"

definition Opt :: "rx \<Rightarrow> rx" where
  "Opt r = Alt r Eps"

fun upto_rx :: "nat \<Rightarrow> rx \<Rightarrow> rx" where
  "upto_rx 0 r = Eps"
| "upto_rx (Suc n) r = Opt (Seq r (upto_rx n r))"

fun times_rx :: "nat \<Rightarrow> rx \<Rightarrow> rx \<Rightarrow> rx" where
  "times_rx 0 r k = k"
| "times_rx (Suc n) r k = Seq r (times_rx n r k)"

definition Rep :: "nat \<Rightarrow> nat \<Rightarrow> rx \<Rightarrow> rx" where
  "Rep m n r = times_rx m r (upto_rx (n - m) r)"

definition AtLeast :: "nat \<Rightarrow> rx \<Rightarrow> rx" where
  "AtLeast m r = times_rx m r (Star r)"

fun alts :: "rx list \<Rightarrow> rx" where
  "alts [] = NotIn [R (CHR 0x00) (CHR 0xFF)]"
| "alts [r] = r"
| "alts (r # rs) = Alt r (alts rs)"

fun seqs :: "rx list \<Rightarrow> rx" where
  "seqs [] = Eps"
| "seqs [r] = r"
| "seqs (r # rs) = Seq r (seqs rs)"

subsection \<open>The string methods built on a pattern\<close>

text \<open>A match found by scanning: the reversed text before the match, the matcher
  state at its end (reversed text before the end, rest, groups).\<close>

type_synonym found = "string \<times> mstate"

fun rx_find :: "bool \<Rightarrow> rx \<Rightarrow> string \<Rightarrow> string \<Rightarrow> found option" where
  "rx_find ic r b [] = (case rm ic r (b, [], []) of [] \<Rightarrow> None | e # _ \<Rightarrow> Some (b, e))"
| "rx_find ic r b (c # a) =
     (case rm ic r (b, c # a, []) of [] \<Rightarrow> rx_find ic r (c # b) a | e # _ \<Rightarrow> Some (b, e))"

definition matched :: "found \<Rightarrow> string" where
  "matched f = (case f of (b, b', a', g) \<Rightarrow> rev (take (length b' - length b) b'))"

definition group :: "nat \<Rightarrow> found \<Rightarrow> string option" where
  "group n f = (case f of (b, b', a', g) \<Rightarrow> map_of g n)"

text \<open>\<^verbatim>\<open>re.test(s)\<close> for a pattern without the \<^verbatim>\<open>g\<close> flag.\<close>

definition rx_test :: "bool \<Rightarrow> rx \<Rightarrow> string \<Rightarrow> bool" where
  "rx_test ic r s = (rx_find ic r [] s \<noteq> None)"

text \<open>\<^verbatim>\<open>s.match(re)\<close> for a pattern without the \<^verbatim>\<open>g\<close> flag: the first match,
  with its groups, or null.\<close>

definition rx_match :: "bool \<Rightarrow> rx \<Rightarrow> string \<Rightarrow> found option" where
  "rx_match ic r s = rx_find ic r [] s"

text \<open>All successive matches of a pattern with the \<^verbatim>\<open>g\<close> flag, left to right, as
  \<^verbatim>\<open>s.match(re)\<close>, \<^verbatim>\<open>s.matchAll(re)\<close>, \<^verbatim>\<open>s.replace(re, ...)\<close> and a loop of
  \<^verbatim>\<open>re.exec(s)\<close> enumerate them: the search resumes where the last match ended,
  one character further after an empty match.  (A loop of \<^verbatim>\<open>exec\<close> would not
  advance after an empty match; the patterns the source loops on consume at
  least one character.)\<close>

function rx_all :: "bool \<Rightarrow> rx \<Rightarrow> string \<Rightarrow> string \<Rightarrow> found list" where
  "rx_all ic r b a =
     (case rx_find ic r b a of
        None \<Rightarrow> []
      | Some (b0, b', a', g) \<Rightarrow>
          (b0, b', a', g) #
          (if length a' < length a then rx_all ic r b' a'
           else (case a' of [] \<Rightarrow> []
                 | c # a'' \<Rightarrow> if length a'' < length a then rx_all ic r (c # b') a'' else [])))"
  by pat_completeness auto
termination
  by (relation "measure (\<lambda>(ic, r, b, a). length a)") auto

declare rx_all.simps [simp del]

text \<open>\<^verbatim>\<open>s.replace(re, t)\<close> for a pattern with the \<^verbatim>\<open>g\<close> flag and a replacement
  text \<open>t\<close> already expanded (no group reference left in it).\<close>

fun splice :: "string \<Rightarrow> string \<Rightarrow> string \<Rightarrow> found list \<Rightarrow> string" where
  "splice t b a [] = a"
| "splice t b a ((b0, b', a', g) # fs) =
     take (length b0 - length b) a @ t @ splice t b' a' fs"

definition rx_replace :: "bool \<Rightarrow> rx \<Rightarrow> string \<Rightarrow> string \<Rightarrow> string" where
  "rx_replace ic r t s = splice t [] s (rx_all ic r [] s)"

text \<open>\<^verbatim>\<open>s.replace(",", ".")\<close> with a string as pattern: the first occurrence only.\<close>

fun replace_first :: "char \<Rightarrow> char \<Rightarrow> string \<Rightarrow> string" where
  "replace_first x y [] = []"
| "replace_first x y (c # s) = (if c = x then y # s else c # replace_first x y s)"

text \<open>\<^verbatim>\<open>s.split(c)\<close> on a one-character separator.\<close>

fun split_on :: "char \<Rightarrow> string \<Rightarrow> string list" where
  "split_on x [] = [[]]"
| "split_on x (c # s) =
     (case split_on x s of
        [] \<Rightarrow> [[c]]
      | p # ps \<Rightarrow> if c = x then [] # p # ps else (c # p) # ps)"

text \<open>\<^verbatim>\<open>s.trim()\<close>.\<close>

definition trim :: "string \<Rightarrow> string" where
  "trim s = rev (dropWhile (in_cls cs) (rev (dropWhile (in_cls cs) s)))"


section \<open>Numeric Normalizer: \<^verbatim>\<open>toNumberARS\<close>\<close>

text \<open>
  Amounts are JavaScript numbers in the source.  They are modelled as rationals: the
  exact value of the decimal literal that \<^verbatim>\<open>parseFloat\<close> reads, where the source
  holds the nearest double.  \<^verbatim>\<open>null\<close> and \<^verbatim>\<open>NaN\<close> are \<open>None\<close>, so
  \<^verbatim>\<open>Number.isFinite(v)\<close> is \<open>v \<noteq> None\<close> (a literal of more than 308 digits, which
  the source reads as \<^verbatim>\<open>Infinity\<close>, is outside the model).  Rounding to the nearest
  double is monotone and the thresholds of the source (0, 50, 1000, 10000000) are
  doubles, so every comparison with them has the same outcome on the exact value.
\<close>

definition is_digit :: "char \<Rightarrow> bool" where
  "is_digit c = in_cls cd c"

definition digits_val :: "string \<Rightarrow> int" where
  "digits_val s = foldl (\<lambda>n c. 10 * n + (of_char c - 48)) 0 s"

text \<open>\<^verbatim>\<open>parseFloat\<close> on the texts that reach it here, which hold digits, dots and
  commas only: the longest prefix of the form digits, optional dot, digits.\<close>

definition parseFloat :: "string \<Rightarrow> rat option" where
  "parseFloat s =
     (let ip = takeWhile is_digit s;
          r1 = dropWhile is_digit s;
          fp = (case r1 of [] \<Rightarrow> [] | c # r2 \<Rightarrow> if c = CHR ''.'' then takeWhile is_digit r2 else [])
      in if ip = [] \<and> fp = [] then None
         else Some (of_int (digits_val (ip @ fp)) / 10 ^ length fp))"

text \<open>\<^verbatim>\<open>/[.,](?:0{3}|0{2}[oO]|0[oO]0|[oO]0{2})(?!\d)/\<close>\<close>

definition RE_TRIPLE_ZERO_HINT :: rx where
  "RE_TRIPLE_ZERO_HINT =
     seqs [In [C (CHR ''.''), C (CHR '','')],
           alts [Rep 3 3 (lit ''0''),
                 Seq (Rep 2 2 (lit ''0'')) (In [C (CHR ''o''), C (CHR ''O'')]),
                 seqs [lit ''0'', In [C (CHR ''o''), C (CHR ''O'')], lit ''0''],
                 Seq (In [C (CHR ''o''), C (CHR ''O'')]) (Rep 2 2 (lit ''0''))],
           NotAhead (In cd)]"

definition remove_dots :: "string \<Rightarrow> string" where
  "remove_dots s = rx_replace False (lit ''.'') [] s"

definition toNumberARS :: "string \<Rightarrow> rat option" where
  "toNumberARS original =
     (let s0 = rx_replace False (seqs [Behind cd, In [C (CHR ''o''), C (CHR ''O'')], Ahead (In cd)])
                 ''0'' original;
          s1 = rx_replace False (NotIn (cd @ [C (CHR ''.''), C (CHR '',''), C (CHR 0xA0)])) [] s0;
          s2 = rx_replace False (In [C (CHR 0xA0)]) '' '' s1;
          s3 = rx_replace False (Plus (In cs)) [] s2;
          s = rx_replace False
                (Alt (Seq Bol (Plus (In [C (CHR ''.''), C (CHR '','')])))
                     (Seq (Plus (In [C (CHR ''.''), C (CHR '','')])) Eol)) [] s3;
          hasOcrTripleZero = rx_test False RE_TRIPLE_ZERO_HINT original
      in
      if s = [] then None
      else if CHR ''.'' \<in> set s \<and> CHR '','' \<in> set s then
        parseFloat (replace_first (CHR '','') (CHR ''.'') (remove_dots s))
      else if CHR '','' \<in> set s then
        (if rx_test False
              (seqs [Bol, Rep 1 3 (In cd), Plus (Seq (lit '','') (Rep 3 3 (In cd))),
                     Opt (Seq (lit '','') (Rep 1 2 (In cd))), Eol]) s
         then (let parts = split_on (CHR '','') s in
               if length (last parts) \<le> 2
               then parseFloat (concat (butlast parts) @ ''.'' @ last parts)
               else parseFloat (concat parts))
         else parseFloat (replace_first (CHR '','') (CHR ''.'') (remove_dots s)))
      else if CHR ''.'' \<in> set s then
        (let parts = split_on (CHR ''.'') s; lst = last parts in
         if hasOcrTripleZero then parseFloat (remove_dots s)
         else if rx_test False (seqs [Bol, Rep 3 3 (lit ''0''), Eol]) lst \<or> length lst = 3
         then parseFloat (remove_dots s)
         else if rx_test False
                   (seqs [Bol, Rep 1 3 (In cd), Plus (Seq (lit ''.'') (Rep 3 3 (In cd))),
                          Opt (Seq (lit ''.'') (Rep 1 2 (In cd))), Eol]) s
         then parseFloat (concat (butlast parts) @ ''.'' @ lst)
         else (case parseFloat s of
                 None \<Rightarrow> None
               | Some v \<Rightarrow>
                   if v < 1000 \<and> rx_test False (seqs [lit ''.'', AtLeast 3 (lit ''0''), WordB]) original
                   then Some (v * 1000) else Some v))
      else parseFloat s)"


section \<open>Amount Finder: \<^verbatim>\<open>findBestAmount\<close>\<close>

text \<open>\<^verbatim>\<open>s.split(re)\<close> for a pattern that never matches the empty text: the pieces
  between successive matches.\<close>

fun pieces :: "string \<Rightarrow> string \<Rightarrow> found list \<Rightarrow> string list" where
  "pieces b a [] = [a]"
| "pieces b a ((b0, b', a', g) # fs) = take (length b0 - length b) a # pieces b' a' fs"

definition rx_split :: "bool \<Rightarrow> rx \<Rightarrow> string \<Rightarrow> string list" where
  "rx_split ic r s = pieces [] s (rx_all ic r [] s)"

text \<open>Letters that the patterns accept with or without accent.\<close>

definition o_acc :: rx where
  "o_acc = In [C (CHR ''o''), C (CHR 0xF3)]"

definition a_acc :: rx where
  "a_acc = In [C (CHR ''a''), C (CHR 0xE1)]"

definition u_acc :: rx where
  "u_acc = In [C (CHR ''u''), C (CHR 0xFA)]"

text \<open>The three currency rewritings shared by both normalisers.  The replacement text
  of the second is written \<^verbatim>\<open>"$$1"\<close> in the source: \<^verbatim>\<open>$$\<close> stands for one dollar
  sign and the \<^verbatim>\<open>1\<close> after it is an ordinary character, so the match is replaced
  by the two characters \<^verbatim>\<open>$1\<close>.\<close>

definition RE_S_DOLLAR :: rx where
  "RE_S_DOLLAR = seqs [lit ''s'', Star (In cs), lit ''$'']"

definition RE_S_DIGIT :: rx where
  "RE_S_DIGIT = seqs [WordB, lit ''s'', Star (In cs), Grp 1 (In cd)]"

definition fba_norm :: "string \<Rightarrow> string" where
  "fba_norm text =
     rx_replace True (seqs [WordB, lit ''ars'', Star (In cs)]) ''$''
       (rx_replace True RE_S_DIGIT ''$1''
         (rx_replace True RE_S_DOLLAR ''$''
           (rx_replace False (In [C (CHR 0xA0)]) '' ''
             (rx_replace False (In [C (CHR 0xB4), C (CHR 0x60)]) [CHR 0x27]
               (rx_replace False (In [C (CHR 0x0D)]) [] text)))))"

text \<open>\<^verbatim>\<open>norm.split(/\n+/).map(s => s.trim()).filter(Boolean)\<close>\<close>

definition fba_lines :: "string \<Rightarrow> string list" where
  "fba_lines text =
     filter (\<lambda>l. l \<noteq> []) (map trim (rx_split False (Plus (In [C (CHR 0x0A)])) (fba_norm text)))"

definition BAD_CTX :: rx where
  "BAD_CTX = Grp 1 (alts [lit ''cuit'', lit ''cuil'', lit ''cvu'', lit ''cbu'', lit ''coelsa'',
       seqs [lit ''operaci'', o_acc, lit ''n''],
       seqs [lit ''transacci'', o_acc, lit ''n''],
       seqs [lit ''identificaci'', o_acc, lit ''n''],
       seqs [lit ''c'', o_acc, lit ''digo''],
       seqs [lit ''n'', u_acc, lit ''mero''],
       lit ''referencia''])"

definition KEY_NEAR :: rx where
  "KEY_NEAR = Grp 1 (alts [lit ''comprobante'', lit ''transferencia'', lit ''motivo'',
       seqs [lit ''mercado'', Star (In cs), lit ''pago''],
       lit ''pagaste'', lit ''enviaste'',
       Seq (lit ''de'') WordB, Seq (lit ''para'') WordB,
       lit ''monto'', lit ''importe'', lit ''total''])"

text \<open>\<^verbatim>\<open>/\$\s*([0-9][0-9.,\s\u00A0\u202F]*)/g\<close>\<close>

definition RE_CURRENCY_ANY :: rx where
  "RE_CURRENCY_ANY =
     seqs [lit ''$'', Star (In cs),
           Grp 1 (Seq (In cd) (Star (In (cd @ [C (CHR ''.''), C (CHR '','')] @ cs))))]"

text \<open>\<^verbatim>\<open>/\b([1-9][0-9]{0,2}(?:[.,\s\u00A0\u202F][0-9]{3})+|[1-9][0-9]{4,})(?:[.,]\d{1,2})?\b/g\<close>\<close>

definition c19 :: "citem list" where
  "c19 = [R (CHR ''1'') (CHR ''9'')]"

definition RE_GROUPED_OR_LONG :: rx where
  "RE_GROUPED_OR_LONG =
     seqs [WordB,
           Grp 1 (Alt (seqs [In c19, Rep 0 2 (In cd),
                             Plus (Seq (In ([C (CHR ''.''), C (CHR '','')] @ cs)) (Rep 3 3 (In cd)))])
                      (Seq (In c19) (AtLeast 4 (In cd)))),
           Opt (Seq (In [C (CHR ''.''), C (CHR '','')]) (Rep 1 2 (In cd))),
           WordB]"

definition toFloatFlexible :: "string \<Rightarrow> rat option" where
  "toFloatFlexible raw = toNumberARS (trim (rx_replace False (In [C (CHR 0xA0)]) '' '' raw))"

text \<open>A candidate is its value and its priority.  \<^verbatim>\<open>pushCand\<close> keeps a finite
  value between 50 and 10000000.\<close>

type_synonym cand = "rat \<times> nat"

definition pushCand :: "rat option \<Rightarrow> nat \<Rightarrow> cand list" where
  "pushCand v prio =
     (case v of None \<Rightarrow> [] | Some x \<Rightarrow> if x \<ge> 50 \<and> x \<le> 10000000 then [(x, prio)] else [])"

text \<open>First pass: every \<^verbatim>\<open>$\<close>-led number of a line that has a \<^verbatim>\<open>$\<close> and no
  \<^verbatim>\<open>BAD_CTX\<close> word, at priority 6.\<close>

fun group1 :: "found \<Rightarrow> string" where
  "group1 (b, b', a', g) = (case map_of g 1 of None \<Rightarrow> [] | Some t \<Rightarrow> t)"

fun currency_cand :: "found \<Rightarrow> cand list" where
  "currency_cand (b, b', a', g) = pushCand (toFloatFlexible (group1 (b, b', a', g))) 6"

definition passA_line :: "string \<Rightarrow> cand list" where
  "passA_line line =
     (if line = [] \<or> rx_test True BAD_CTX line \<or> \<not> rx_test False (lit ''$'') line then []
      else concat (map currency_cand (rx_all False RE_CURRENCY_ANY [] line)))"

text \<open>\<^verbatim>\<open>parseInt(raw, 10)\<close> on a text that starts with a digit or not: its leading
  digits, \<^verbatim>\<open>NaN\<close> when there is none.\<close>

definition parseInt :: "string \<Rightarrow> int option" where
  "parseInt raw = (let d = takeWhile is_digit raw in if d = [] then None else Some (digits_val d))"

definition is_year_token :: "string \<Rightarrow> bool" where
  "is_year_token raw =
     (\<not> rx_test False (In ([C (CHR ''.''), C (CHR '','')] @ cs)) raw \<and>
      (case parseInt raw of None \<Rightarrow> False | Some asInt \<Rightarrow> asInt \<ge> 1900 \<and> asInt \<le> 2099))"

text \<open>The bonus of line \<open>idx\<close>: the best of \<open>3 - |k - idx|\<close> over the lines \<open>k\<close> from
  \<open>max 0 (idx - 3)\<close> to \<open>min (length lines - 1) (idx + 3)\<close> that hold a
  \<^verbatim>\<open>KEY_NEAR\<close> word.\<close>

fun bonus_loop :: "string list \<Rightarrow> nat \<Rightarrow> nat list \<Rightarrow> nat \<Rightarrow> nat" where
  "bonus_loop lines idx [] bn = bn"
| "bonus_loop lines idx (k # ks) bn =
     (if rx_test True KEY_NEAR (lines ! k)
      then bonus_loop lines idx ks (max bn (3 - (if k \<le> idx then idx - k else k - idx)))
      else bonus_loop lines idx ks bn)"

definition bonus :: "string list \<Rightarrow> nat \<Rightarrow> nat" where
  "bonus lines idx = bonus_loop lines idx [idx - 3 ..< Suc (min (length lines - 1) (idx + 3))] 0"

fun grouped_cand :: "string list \<Rightarrow> nat \<Rightarrow> found \<Rightarrow> cand list" where
  "grouped_cand lines idx (b, b', a', g) =
     (if is_year_token (matched (b, b', a', g)) then []
      else pushCand (toFloatFlexible (matched (b, b', a', g))) (2 + bonus lines idx))"

definition passB_line :: "string list \<Rightarrow> nat \<Rightarrow> cand list" where
  "passB_line lines idx =
     (if lines ! idx = [] \<or> rx_test True BAD_CTX (lines ! idx) then []
      else concat (map (grouped_cand lines idx) (rx_all False RE_GROUPED_OR_LONG [] (lines ! idx))))"

text \<open>\<^verbatim>\<open>pool.sort((a, b) => (b.prio - a.prio) || (b.v - a.v))\<close>: a stable sort by
  falling priority, then falling value, as an insertion sort.\<close>

definition cand_before :: "cand \<Rightarrow> cand \<Rightarrow> bool" where
  "cand_before a b = (snd a > snd b \<or> (snd a = snd b \<and> fst a \<ge> fst b))"

fun cand_insert :: "cand \<Rightarrow> cand list \<Rightarrow> cand list" where
  "cand_insert x [] = [x]"
| "cand_insert x (y # ys) = (if cand_before x y then x # y # ys else y # cand_insert x ys)"

definition cand_sort :: "cand list \<Rightarrow> cand list" where
  "cand_sort xs = foldr cand_insert xs []"

definition findBestAmount :: "string \<Rightarrow> rat option" where
  "findBestAmount text =
     (if text = [] then None
      else
        let lines = fba_lines text;
            candA = concat (map passA_line lines);
            candidates = (if candA = [] then concat (map (passB_line lines) [0 ..< length lines])
                          else candA)
        in if candidates = [] then None
           else
             let hasBig = list_ex (\<lambda>c. fst c \<ge> 1000) candidates;
                 pool = (if hasBig then filter (\<lambda>c. fst c \<ge> 1000) candidates else candidates)
             in (case cand_sort pool of [] \<Rightarrow> None | c # _ \<Rightarrow> Some (fst c)))"


section \<open>Template Registry and Parser: \<^verbatim>\<open>parseByTemplate\<close>\<close>

text \<open>\<^verbatim>\<open>_normTextForTpl\<close>.  Its last but one step turns every run of white space,
  line feeds included, into one space.\<close>

definition normTextForTpl :: "string \<Rightarrow> string" where
  "normTextForTpl s =
     trim
       (rx_replace False (Plus (In cs)) '' ''
         (rx_replace True (Seq (lit ''ars'') (Star (In cs))) ''$''
           (rx_replace True RE_S_DIGIT ''$1''
             (rx_replace True RE_S_DOLLAR ''$''
               (rx_replace False (In [C (CHR 0xB4), C (CHR 0x60)]) [CHR 0x27]
                 (rx_replace False (In [C (CHR 0xA0)]) '' ''
                   (rx_replace False (In [C (CHR 0x0D)]) [] s)))))))"

text \<open>\<^verbatim>\<open>/(?:\$)\s*([0-9]{1,3}(?:[ .,  ][0-9]{3})*(?:[.,][0-9]{1,2})?|[0-9]+(?:[.,][0-9]{1,2})?)/i\<close>\<close>

definition RE_TPL_AMOUNT :: rx where
  "RE_TPL_AMOUNT =
     seqs [lit ''$'', Star (In cs),
           Grp 1 (Alt (seqs [Rep 1 3 (In cd),
                             Star (Seq (In [C (CHR '' ''), C (CHR ''.''), C (CHR '',''), C (CHR 0xA0)])
                                       (Rep 3 3 (In cd))),
                             Opt (Seq (In [C (CHR ''.''), C (CHR '','')]) (Rep 1 2 (In cd)))])
                      (Seq (Plus (In cd))
                           (Opt (Seq (In [C (CHR ''.''), C (CHR '','')]) (Rep 1 2 (In cd))))))]"

definition extractAmountFromLine :: "string \<Rightarrow> rat option" where
  "extractAmountFromLine line =
     (case rx_match True RE_TPL_AMOUNT line of
        None \<Rightarrow> None
      | Some m \<Rightarrow> toNumberARS (group1 m))"

text \<open>A registry entry: provider, \<^verbatim>\<open>test\<close>, \<^verbatim>\<open>amountLine\<close> (all three with the
  \<^verbatim>\<open>i\<close> flag).  The provider of the fifth entry is the text the source has.\<close>

type_synonym tpl = "string \<times> rx \<times> rx"

definition amountLine_common :: rx where
  "amountLine_common = Seq (alts [lit ''monto'', lit ''importe'', lit ''total'']) WordB"

definition TPLS :: "tpl list" where
  "TPLS =
    [(''Mercado Pago'',
      alts [seqs [lit ''mercado'', Star (In cs), lit ''pago''],
            seqs [lit ''mercado'', Star (In cs), lit ''libre''],
            seqs [lit ''c'', o_acc, lit ''digo de identificaci'', o_acc, lit ''n''],
            lit ''comprobante de transferencia'',
            lit ''pagaste''],
      Seq (alts [lit ''pagaste'', lit ''transferiste'', lit ''monto'', lit ''importe'', lit ''total'']) WordB),
     (''Naranja X'',
      alts [seqs [lit ''naranja'', Star (In cs), lit ''x''], lit ''enviaste''],
      Seq (alts [lit ''enviaste'', lit ''monto'', lit ''importe'', lit ''total'']) WordB),
     (''Prex'',
      alts [seqs [WordB, lit ''prex'', WordB], lit ''comprobante de transferencia''],
      Seq (alts [lit ''monto'', lit ''importe'', lit ''total'', lit ''enviaste'', lit ''transferiste'']) WordB),
     (''Ual'' @ [CHR 0xE1],
      alts [seqs [lit ''ual'', a_acc, WordB], lit ''transferencia realizada'', lit ''comprobante''],
      Seq (alts [lit ''monto'', lit ''importe'', lit ''total'', lit ''transferiste'', lit ''transferencia'']) WordB),
     (''Banco Naci[o'' @ [CHR 0xF3] @ '']n|BNA'',
      alts [seqs [lit ''banco'', Plus (In cs), lit ''naci'', o_acc, lit ''n''],
            Seq (lit ''bna'') WordB, lit ''bna+''],
      amountLine_common),
     (''Santander'', lit ''santander'', amountLine_common),
     (''Galicia'', lit ''galicia'', amountLine_common)]"

text \<open>\<^verbatim>\<open>!best\<close>: \<^verbatim>\<open>null\<close> and 0 are both falsy.\<close>

definition falsy :: "rat option \<Rightarrow> bool" where
  "falsy best = (best = None \<or> best = Some 0)"

text \<open>\<^verbatim>\<open>if (Number.isFinite(v)) { if (!best || v > best) best = v; }\<close>\<close>

definition keep_max :: "rat option \<Rightarrow> rat option \<Rightarrow> rat option" where
  "keep_max best v =
     (case v of
        None \<Rightarrow> best
      | Some x \<Rightarrow> (case best of
                     None \<Rightarrow> Some x
                   | Some y \<Rightarrow> if y = 0 \<or> x > y then Some x else Some y))"

text \<open>The loop over the lines of the normalised text.\<close>

fun tpl_lines_loop :: "rx \<Rightarrow> string list \<Rightarrow> rat option \<Rightarrow> rat option" where
  "tpl_lines_loop amountLine [] best = best"
| "tpl_lines_loop amountLine (l # ls) best =
     (if rx_test True amountLine l \<or> rx_test False (lit ''$'') l
      then tpl_lines_loop amountLine ls (keep_max best (extractAmountFromLine l))
      else tpl_lines_loop amountLine ls best)"

text \<open>The loop over all \<^verbatim>\<open>$\<close>-led numbers of the whole text, entered when the lines
  left \<^verbatim>\<open>best\<close> falsy; each hit is read again with
  \<^verbatim>\<open>/(?:\$)\s*([0-9., \u00A0\u202F]+)/i\<close>.\<close>

definition RE_TPL_HIT :: rx where
  "RE_TPL_HIT =
     seqs [lit ''$'', Star (In cs),
           Grp 1 (Plus (In (cd @ [C (CHR ''.''), C (CHR '',''), C (CHR '' ''), C (CHR 0xA0)])))]"

fun tpl_any_loop :: "found list \<Rightarrow> rat option \<Rightarrow> rat option" where
  "tpl_any_loop [] best = best"
| "tpl_any_loop ((b, b', a', g) # hits) best =
     tpl_any_loop hits
       (keep_max best
          (case rx_match True RE_TPL_HIT (matched (b, b', a', g)) of
             None \<Rightarrow> None
           | Some mm \<Rightarrow> toNumberARS (group1 mm)))"

definition tpl_best :: "rx \<Rightarrow> string list \<Rightarrow> string \<Rightarrow> rat option" where
  "tpl_best amountLine lines all =
     (let best = tpl_lines_loop amountLine lines None in
      if falsy best then tpl_any_loop (rx_all True RE_TPL_AMOUNT [] all) best else best)"

text \<open>The loop over the registry.  The result is \<open>None\<close> for \<^verbatim>\<open>{ matched: false }\<close>
  and the provider with the amount otherwise (the \<^verbatim>\<open>fields\<close> of the source's
  result are not modelled).\<close>

fun tpl_loop :: "tpl list \<Rightarrow> string list \<Rightarrow> string \<Rightarrow> (string \<times> rat) option" where
  "tpl_loop [] lines all = None"
| "tpl_loop ((provider, test, amountLine) # tpls) lines all =
     (if \<not> rx_test True test all then tpl_loop tpls lines all
      else (case tpl_best amountLine lines all of
              None \<Rightarrow> tpl_loop tpls lines all
            | Some best \<Rightarrow> if best > 0 then Some (provider, best) else tpl_loop tpls lines all))"

definition parseByTemplate :: "string \<Rightarrow> (string \<times> rat) option" where
  "parseByTemplate text =
     (if text = [] then None
      else let norm = normTextForTpl text;
               lines = filter (\<lambda>l. l \<noteq> []) (map trim (split_on (CHR 0x0A) norm))
           in tpl_loop TPLS lines norm)"


section \<open>Field Extractor: operation and reference of \<^verbatim>\<open>extractReceiptFields\<close>\<close>

text \<open>\<^verbatim>\<open>RE_REF = /(referencia|ref\.?|c[o\u00F3]digo|cod\.?)\s*[:\-]?\s*([A-Z0-9\-]+)/gi\<close> and
  \<^verbatim>\<open>RE_TXN = /(operaci[o\u00F3]n|transacci[o\u00F3]n|nro\.?\s*op\.?)\s*[:\-]?\s*([A-Z0-9\-]+)/gi\<close>.
  Both carry the \<^verbatim>\<open>g\<close> flag.\<close>

definition label_tail :: rx where
  "label_tail =
     seqs [Star (In cs), Opt (In [C (CHR '':''), C (CHR ''-'')]), Star (In cs),
           Grp 2 (Plus (In [R (CHR ''A'') (CHR ''Z''), R (CHR ''0'') (CHR ''9''), C (CHR ''-'')]))]"

definition RE_REF :: rx where
  "RE_REF =
     Seq (Grp 1 (alts [lit ''referencia'',
                       Seq (lit ''ref'') (Opt (lit ''.'')),
                       seqs [lit ''c'', o_acc, lit ''digo''],
                       Seq (lit ''cod'') (Opt (lit ''.''))]))
         label_tail"

definition RE_TXN :: rx where
  "RE_TXN =
     Seq (Grp 1 (alts [seqs [lit ''operaci'', o_acc, lit ''n''],
                       seqs [lit ''transacci'', o_acc, lit ''n''],
                       seqs [lit ''nro'', Opt (lit ''.''), Star (In cs), lit ''op'', Opt (lit ''.'')]]))
         label_tail"

text \<open>\<^verbatim>\<open>s.match(re)\<close> for a pattern with the \<^verbatim>\<open>g\<close> flag: \<^verbatim>\<open>null\<close> when nothing
  matches, else the array of the matched texts (whole matches, no groups).\<close>

definition rx_match_g :: "bool \<Rightarrow> rx \<Rightarrow> string \<Rightarrow> string list option" where
  "rx_match_g ic r s = (case map matched (rx_all ic r [] s) of [] \<Rightarrow> None | ms \<Rightarrow> Some ms)"

text \<open>\<^verbatim>\<open>arr[i]\<close>: \<^verbatim>\<open>undefined\<close> beyond the end.\<close>

definition js_index :: "'a list \<Rightarrow> nat \<Rightarrow> 'a option" where
  "js_index xs i = (if i < length xs then Some (xs ! i) else None)"

text \<open>\<^verbatim>\<open>const mTxn = norm.match(RE_TXN); if (mTxn) out.transaction = mTxn[2];\<close> and the
  same for \<^verbatim>\<open>RE_REF\<close> and \<^verbatim>\<open>out.reference\<close>; both start as \<^verbatim>\<open>null\<close>, and an
  empty text returns at once.\<close>

definition extract_labelled :: "rx \<Rightarrow> string \<Rightarrow> string option" where
  "extract_labelled re text =
     (if text = [] then None
      else (case rx_match_g True re (normTextForTpl text) of
              None \<Rightarrow> None
            | Some m \<Rightarrow> js_index m 2))"

definition extractReceiptFields_transaction :: "string \<Rightarrow> string option" where
  "extractReceiptFields_transaction text = extract_labelled RE_TXN text"

definition extractReceiptFields_reference :: "string \<Rightarrow> string option" where
  "extractReceiptFields_reference text = extract_labelled RE_REF text"

text \<open>\<^verbatim>\<open>x || null\<close> on an optional text: the empty text is falsy too.\<close>

definition or_null :: "string option \<Rightarrow> string option" where
  "or_null x = (case x of None \<Rightarrow> None | Some t \<Rightarrow> if t = [] then None else Some t)"

section \<open>Scorer: \<^verbatim>\<open>scoreReceiptText\<close>\<close>

definition RE_MERCADO_PAGO :: rx where
  "RE_MERCADO_PAGO = seqs [lit ''mercado'', Star (In cs), lit ''pago'']"

definition RE_HAS_KW :: rx where
  "RE_HAS_KW =
     alts [lit ''pagaste'', lit ''recibo'', lit ''pago realizado'',
           seqs [lit ''n'', u_acc, lit ''mero de operaci'', o_acc, lit ''n''],
           seqs [lit ''c'', o_acc, lit ''digo de identificaci'', o_acc, lit ''n'']]"

definition RE_HAS_BANK :: rx where
  "RE_HAS_BANK =
     Grp 1 (alts [RE_MERCADO_PAGO, Seq (lit ''ual'') a_acc, lit ''santander'', lit ''galicia'',
                  lit ''macro'', lit ''bbva'', lit ''hsbc'', lit ''icbc'',
                  seqs [lit ''naci'', o_acc, lit ''n''], lit ''bna''])"

definition RE_HAS_ID :: rx where
  "RE_HAS_ID =
     seqs [Grp 1 (alts [seqs [lit ''operaci'', o_acc, lit ''n''],
                        seqs [lit ''transacci'', o_acc, lit ''n''],
                        seqs [lit ''c'', o_acc, lit ''digo''],
                        seqs [lit ''identificaci'', o_acc, lit ''n'']]),
           Star (In cs), Opt (In [C (CHR '':''), C (CHR ''-'')]), Star (In cs),
           Plus (In [R (CHR ''A'') (CHR ''Z''), R (CHR ''0'') (CHR ''9''), C (CHR ''-'')])]"

definition RE_PARTIES :: rx where
  "RE_PARTIES =
     Grp 1 (alts [lit ''CUIT'', lit ''CVU'', lit ''CBU'',
                  seqs [WordB, lit ''cvu'', WordB], seqs [WordB, lit ''cbu'', WordB],
                  lit ''beneficiario''])"

text \<open>\<^verbatim>\<open>\b[1-9]\d{0,2}(?:[.\s  ]\d{3})+(?:[,.\s]\d{1,2})?\b\<close>\<close>

definition RE_THOUSANDS :: rx where
  "RE_THOUSANDS =
     seqs [WordB, In c19, Rep 0 2 (In cd),
           Plus (Seq (In (C (CHR ''.'') # cs)) (Rep 3 3 (In cd))),
           Opt (Seq (In ([C (CHR '',''), C (CHR ''.'')] @ cs)) (Rep 1 2 (In cd))),
           WordB]"

definition pts :: "bool \<Rightarrow> nat \<Rightarrow> nat" where
  "pts c n = (if c then n else 0)"

text \<open>The amount the scorer settles on: the template's when a template matched,
  else the finder's; a value below 1000 gives way to a template value above 1000.\<close>

definition score_amount :: "(string \<times> rat) option \<Rightarrow> string \<Rightarrow> rat option" where
  "score_amount tpl text =
     (let amount = (case tpl of Some (p, a) \<Rightarrow> Some a | None \<Rightarrow> findBestAmount text) in
      case amount of
        None \<Rightarrow> None
      | Some a \<Rightarrow>
          if a \<noteq> 0 \<and> a < 1000
          then (case parseByTemplate text of
                  None \<Rightarrow> Some a
                | Some (p, fa) \<Rightarrow> if fa > 1000 then Some fa else Some a)
          else Some a)"

definition has_amount :: "rat option \<Rightarrow> bool" where
  "has_amount amount = (case amount of None \<Rightarrow> False | Some a \<Rightarrow> a > 0)"

definition ge1000 :: "rat option \<Rightarrow> bool" where
  "ge1000 amount = (case amount of None \<Rightarrow> False | Some a \<Rightarrow> a \<ge> 1000)"

definition score_of :: "string \<Rightarrow> bool \<Rightarrow> rat option \<Rightarrow> nat" where
  "score_of t tpl_matched amount =
       pts (rx_test True (seqs [lit ''comprobante'', Plus (In cs), lit ''de'', Plus (In cs),
                                lit ''transferencia'']) t) 2
     + pts (rx_test True (lit ''enviaste'') t) 1
     + pts (rx_test True (lit ''comprobante'') t) 2
     + pts (rx_test True (lit ''transferencia'') t) 2
     + pts (rx_test True RE_MERCADO_PAGO t) 2
     + pts (rx_test True RE_HAS_KW t) 1
     + pts (rx_test True RE_HAS_BANK t) 1
     + pts (has_amount amount) 3
     + pts (rx_test True RE_HAS_ID t) 1
     + pts (rx_test True RE_PARTIES t) 1
     + pts (rx_test False (lit ''$'') t) 1
     + pts (rx_test False RE_THOUSANDS t \<and> ge1000 amount) 2
     + pts (tpl_matched \<and> has_amount amount) 3"

record scored =
  score :: nat
  amount :: "rat option"
  provider :: "string option"

definition scoreReceiptText :: "string \<Rightarrow> scored" where
  "scoreReceiptText text =
     (let t = trim (rx_replace False (Plus (In cs)) '' '' text);
          tpl = parseByTemplate text;
          amt = score_amount tpl text
      in \<lparr> score = score_of t (tpl \<noteq> None) amt,
           amount = (if has_amount amt then amt else None),
           provider = (case tpl of None \<Rightarrow> None | Some (p, a) \<Rightarrow> Some p) \<rparr>)"


section \<open>OCR Driver: the visual fallback \<^verbatim>\<open>tryExtractAmountFromImage\<close>\<close>

text \<open>
  The OCR engine and the image library are outside the program.  The fallback is
  modelled over what they return: \<open>sharp\<close> says whether the image library is
  loaded, \<open>tile_ok r c\<close> whether the tile of row \<open>r\<close> and column \<open>c\<close> is more than 16
  pixels wide and high and is cut out without an exception (the pixel arithmetic
  of the source is floating point and not modelled), and \<open>ocr r c p psm\<close> is the
  text recognised on that tile after pre-processing variant \<open>p\<close> (0, 1, 2) under
  page segmentation mode \<open>psm\<close> (6, 7); a recognition that throws is the empty text,
  since both are skipped alike.
\<close>

text \<open>\<^verbatim>\<open>RE_GROUP\<close> of the fallback: the separators of a group are dot and white
  space (no comma).\<close>

definition RE_GROUP :: rx where
  "RE_GROUP =
     seqs [WordB,
           Grp 1 (Alt (seqs [In c19, Rep 0 2 (In cd),
                             Plus (Seq (In (C (CHR ''.'') # cs)) (Rep 3 3 (In cd)))])
                      (Seq (In c19) (AtLeast 4 (In cd)))),
           Opt (Seq (In [C (CHR ''.''), C (CHR '','')]) (Rep 1 2 (In cd))),
           WordB]"

text \<open>\<^verbatim>\<open>if (Number.isFinite(v) && v < 1000 && hasTripleZero) v *= 1000;
  if (Number.isFinite(v) && v > 0) return v;\<close>: the value returned, or \<open>None\<close> to go
  on.\<close>

definition tile_number :: "bool \<Rightarrow> rat option \<Rightarrow> rat option" where
  "tile_number hasTripleZero v0 =
     (case v0 of
        None \<Rightarrow> None
      | Some v \<Rightarrow>
          let w = (if v < 1000 \<and> hasTripleZero then v * 1000 else v)
          in if w > 0 then Some w else None)"

definition read_text :: "string \<Rightarrow> rat option" where
  "read_text text =
     (let raw = trim text in
      if raw = [] then None
      else
        let hasTripleZero = rx_test False RE_TRIPLE_ZERO_HINT raw;
            byCurrency = (case rx_match False RE_CURRENCY_ANY raw of
                            None \<Rightarrow> None
                          | Some m \<Rightarrow> tile_number hasTripleZero (toNumberARS (group1 m)))
        in (case byCurrency of
              Some v \<Rightarrow> Some v
            | None \<Rightarrow> (case rx_match False RE_GROUP raw of
                         None \<Rightarrow> None
                       | Some m \<Rightarrow> tile_number hasTripleZero (toNumberARS (matched m)))))"

text \<open>The grid (\<^verbatim>\<open>ROWS = 6\<close>, \<^verbatim>\<open>COLS = 4\<close>), the three pre-processing variants and
  the two page segmentation modes, in the order the loops visit them.\<close>

definition ROWS :: "nat list" where
  "ROWS = [0, 1, 2, 3, 4, 5]"

definition COLS :: "nat list" where
  "COLS = [0, 1, 2, 3]"

definition pipelines :: "nat list" where
  "pipelines = [0, 1, 2]"

definition psms :: "nat list" where
  "psms = [6, 7]"

text \<open>\<^verbatim>\<open>readPiece\<close>: page segmentation modes 6 and 7 in turn.\<close>

fun readPiece :: "(nat \<Rightarrow> string) \<Rightarrow> nat list \<Rightarrow> rat option" where
  "readPiece o1 [] = None"
| "readPiece o1 (psm # rest) =
     (case read_text (o1 psm) of Some v \<Rightarrow> Some v | None \<Rightarrow> readPiece o1 rest)"

text \<open>\<^verbatim>\<open>best = best ? Math.max(best, v) : v\<close>\<close>

definition max_or :: "rat option \<Rightarrow> rat \<Rightarrow> rat option" where
  "max_or best v = (if falsy best then Some v else Some (max (the best) v))"

text \<open>The loop over the three pre-processing variants of one tile; it breaks at the
  first positive value.\<close>

fun pipelines_loop :: "(nat \<Rightarrow> nat \<Rightarrow> string) \<Rightarrow> nat list \<Rightarrow> rat option \<Rightarrow> rat option" where
  "pipelines_loop o2 [] best = best"
| "pipelines_loop o2 (p # ps) best =
     (case readPiece (o2 p) psms of
        None \<Rightarrow> pipelines_loop o2 ps best
      | Some v \<Rightarrow> if v > 0 then max_or best v else pipelines_loop o2 ps best)"

text \<open>\<^verbatim>\<open>for (let c = 0; c < COLS && !best; c++)\<close> inside
  \<^verbatim>\<open>for (let r = 0; r < ROWS && !best; r++)\<close>.\<close>

fun cols_loop :: "(nat \<Rightarrow> bool) \<Rightarrow> (nat \<Rightarrow> nat \<Rightarrow> nat \<Rightarrow> string) \<Rightarrow> nat list \<Rightarrow> rat option \<Rightarrow> rat option" where
  "cols_loop ok1 o3 [] best = best"
| "cols_loop ok1 o3 (c # cols) best =
     (if \<not> falsy best then best
      else if \<not> ok1 c then cols_loop ok1 o3 cols best
      else cols_loop ok1 o3 cols (pipelines_loop (o3 c) pipelines best))"

fun rows_loop :: "(nat \<Rightarrow> nat \<Rightarrow> bool) \<Rightarrow> (nat \<Rightarrow> nat \<Rightarrow> nat \<Rightarrow> nat \<Rightarrow> string) \<Rightarrow> nat list \<Rightarrow> rat option \<Rightarrow> rat option" where
  "rows_loop tile_ok ocr [] best = best"
| "rows_loop tile_ok ocr (r # rows) best =
     (if \<not> falsy best then best
      else rows_loop tile_ok ocr rows (cols_loop (tile_ok r) (ocr r) COLS best))"

text \<open>\<^verbatim>\<open>/^image\/(jpe?g|png|webp)$/i\<close> and \<^verbatim>\<open>/^image\/(jpeg|png|webp)$/i\<close>\<close>

definition RE_IMAGE_JPG :: rx where
  "RE_IMAGE_JPG =
     seqs [Bol, lit ''image/'',
           Grp 1 (alts [seqs [lit ''jp'', Opt (lit ''e''), lit ''g''], lit ''png'', lit ''webp'']), Eol]"

definition RE_IMAGE :: rx where
  "RE_IMAGE =
     seqs [Bol, lit ''image/'', Grp 1 (alts [lit ''jpeg'', lit ''png'', lit ''webp'']), Eol]"

definition tryExtractAmountFromImage ::
  "bool \<Rightarrow> string \<Rightarrow> (nat \<Rightarrow> nat \<Rightarrow> bool) \<Rightarrow> (nat \<Rightarrow> nat \<Rightarrow> nat \<Rightarrow> nat \<Rightarrow> string) \<Rightarrow> rat option" where
  "tryExtractAmountFromImage sharp mimetype tile_ok ocr =
     (if \<not> sharp then None
      else if \<not> rx_test True RE_IMAGE_JPG mimetype then None
      else rows_loop tile_ok ocr ROWS None)"

section \<open>Receipt Pipeline: the amount-normalisation rules of \<^verbatim>\<open>recordIncomingChat\<close>\<close>

text \<open>\<^verbatim>\<open>IS_MP = /mercado\s*pago/i.test(combined)\<close>\<close>

definition IS_MP :: "string \<Rightarrow> bool" where
  "IS_MP combined = rx_test True RE_MERCADO_PAGO combined"

text \<open>Rule 1, the largest grouped amount.
  \<^verbatim>\<open>RE_GROUPED = /\$?\s*([1-9]\d{0,2}(?:[.\s  ]\d{3})+)(?:[.,]\d{1,2})?\b/g\<close>; its
  \<^verbatim>\<open>KEY_NEAR\<close> has no \<^verbatim>\<open>enviaste\<close>.\<close>

definition RE_GROUPED :: rx where
  "RE_GROUPED =
     seqs [Opt (lit ''$''), Star (In cs),
           Grp 1 (seqs [In c19, Rep 0 2 (In cd),
                        Plus (Seq (In (C (CHR ''.'') # cs)) (Rep 3 3 (In cd)))]),
           Opt (Seq (In [C (CHR ''.''), C (CHR '','')]) (Rep 1 2 (In cd))),
           WordB]"

definition KEY_NEAR_SAFETY :: rx where
  "KEY_NEAR_SAFETY = Grp 1 (alts [lit ''comprobante'', lit ''transferencia'', lit ''motivo'',
       seqs [lit ''mercado'', Star (In cs), lit ''pago''],
       lit ''pagaste'',
       Seq (lit ''de'') WordB, Seq (lit ''para'') WordB,
       lit ''monto'', lit ''importe'', lit ''total''])"

text \<open>\<^verbatim>\<open>maxBig = maxBig ? Math.max(maxBig, v) : v\<close> for a hit of
  \<^verbatim>\<open>RE_GROUPED\<close>, unless its digits are 15 or more, it is not a number, or it
  is outside 1000 to 10000000.\<close>

fun safety_hit :: "rat option \<Rightarrow> found \<Rightarrow> rat option" where
  "safety_hit maxBig (b, b', a', g) =
     (let raw = group1 (b, b', a', g);
          len = length (filter is_digit raw)
      in if len \<ge> 15 \<or> len = 22 then maxBig
         else (case toNumberARS raw of
                 None \<Rightarrow> maxBig
               | Some v \<Rightarrow> if v \<ge> 1000 \<and> v \<le> 10000000 then max_or maxBig v else maxBig))"

fun safety_lines :: "string list \<Rightarrow> rat option \<Rightarrow> rat option" where
  "safety_lines [] maxBig = maxBig"
| "safety_lines (l # ls) maxBig =
     (if rx_test True BAD_CTX l then safety_lines ls maxBig
      else if \<not> rx_test False (lit ''$'') l \<and> \<not> rx_test True KEY_NEAR_SAFETY l
      then safety_lines ls maxBig
      else safety_lines ls (foldl safety_hit maxBig (rx_all False RE_GROUPED [] l)))"

definition linesForSafety :: "string \<Rightarrow> string list" where
  "linesForSafety combined =
     filter (\<lambda>l. l \<noteq> [])
       (map trim (rx_split False (Plus (In [C (CHR 0x0A)]))
                    (rx_replace False (In [C (CHR 0x0D)]) [] combined)))"

definition below1000 :: "rat option \<Rightarrow> bool" where
  "below1000 amt = (case amt of None \<Rightarrow> False | Some a \<Rightarrow> a < 1000)"

definition rule_safety :: "string \<Rightarrow> scored \<Rightarrow> scored" where
  "rule_safety combined rs =
     (if amount rs = None \<or> below1000 (amount rs)
      then (case safety_lines (linesForSafety combined) None of
              None \<Rightarrow> rs
            | Some maxBig \<Rightarrow> rs\<lparr> amount := Some maxBig, score := max (score rs) 10 \<rparr>)
      else rs)"

text \<open>Rule 2, the triple-zero hint.\<close>

definition rule_triple_zero :: "string \<Rightarrow> scored \<Rightarrow> scored" where
  "rule_triple_zero combined rs =
     (case amount rs of
        None \<Rightarrow> rs
      | Some a \<Rightarrow>
          if a < 1000 \<and> rx_test False RE_TRIPLE_ZERO_HINT combined
          then rs\<lparr> amount := Some (a * 1000), score := max (score rs) 10 \<rparr>
          else rs)"

text \<open>Rules 3 and 5, Mercado Pago times 1000 (rule 5 raises the score to 12).
  \<open>mp_force\<close> is the value of \<^verbatim>\<open>(process.env.MP_FORCE_X1000 || "true") === "true"\<close>.\<close>

definition provider_or_mp :: "string option \<Rightarrow> string option" where
  "provider_or_mp p = (case or_null p of None \<Rightarrow> Some ''Mercado Pago'' | Some t \<Rightarrow> Some t)"

definition rule_mp_x1000 :: "bool \<Rightarrow> nat \<Rightarrow> string \<Rightarrow> scored \<Rightarrow> scored" where
  "rule_mp_x1000 mp_force floor_score combined rs =
     (case amount rs of
        None \<Rightarrow> rs
      | Some a \<Rightarrow>
          if mp_force \<and> IS_MP combined \<and> a > 0 \<and> a < 1000
          then rs\<lparr> amount := Some (a * 1000), score := max (score rs) floor_score,
                   provider := provider_or_mp (provider rs) \<rparr>
          else rs)"

text \<open>Rule 4, the visual fallback; \<open>fallbackAmount\<close> is what
  \<^verbatim>\<open>tryExtractAmountFromImage\<close> returns for the media of the message.\<close>

definition not_positive :: "rat option \<Rightarrow> bool" where
  "not_positive amt = (case amt of None \<Rightarrow> True | Some a \<Rightarrow> a \<le> 0)"

definition rule_visual :: "string \<Rightarrow> string \<Rightarrow> rat option \<Rightarrow> scored \<Rightarrow> scored" where
  "rule_visual combined mimetype fallbackAmount rs =
     (if not_positive (amount rs) \<and> IS_MP combined \<and> rx_test True RE_IMAGE mimetype
      then (case fallbackAmount of
              None \<Rightarrow> rs
            | Some f \<Rightarrow> if f > 0
                        then rs\<lparr> amount := Some f, score := max (score rs) 12,
                                 provider := provider_or_mp (provider rs) \<rparr>
                        else rs)
      else rs)"

definition normalize_amount :: "bool \<Rightarrow> string \<Rightarrow> string \<Rightarrow> rat option \<Rightarrow> scored \<Rightarrow> scored" where
  "normalize_amount mp_force combined mimetype fallbackAmount rs =
     rule_mp_x1000 mp_force 12 combined
       (rule_visual combined mimetype fallbackAmount
         (rule_mp_x1000 mp_force 10 combined
           (rule_triple_zero combined
             (rule_safety combined rs))))"

text \<open>The gate: \<^verbatim>\<open>score >= 4 && amount && amount > 0\<close>.\<close>

definition accept :: "scored \<Rightarrow> bool" where
  "accept rs = (score rs \<ge> 4 \<and> (case amount rs of None \<Rightarrow> False | Some a \<Rightarrow> a \<noteq> 0 \<and> a > 0))"


section \<open>Line Session Manager: the in-memory line state\<close>

text \<open>
  The entry of \<^verbatim>\<open>lines\<close> for one \<^verbatim>\<open>line_id\<close>; a field that is \<^verbatim>\<open>null\<close> or was never
  set is \<open>None\<close>.  The writes of \<^verbatim>\<open>setState\<close> to the row store come after the
  in-memory update and are not part of this state.
\<close>

datatype status = initializing | loading | qr | authenticated | ready | disconnected | restarting | error

record line_state =
  status :: status
  lastQrDataUrl :: "string option"
  phone :: "string option"

text \<open>
  A patch of \<^verbatim>\<open>setState\<close>: every call of the source gives the status; for the two
  other fields \<open>None\<close> says that the key is not in the patch and \<open>Some v\<close> that it is,
  with the value \<open>v\<close>.  \<^verbatim>\<open>setState\<close> reads the entry (\<^verbatim>\<open>{}\<close> when \<^verbatim>\<open>lines\<close> has none),
  and stores \<^verbatim>\<open>{ ...st, ...patch }\<close>, all before its first \<^verbatim>\<open>await\<close>.
\<close>

record patch =
  p_status :: status
  p_lastQrDataUrl :: "string option option"
  p_phone :: "string option option"

definition setState :: "patch \<Rightarrow> line_state option \<Rightarrow> line_state option" where
  "setState p entry =
     Some \<lparr> status = p_status p,
            lastQrDataUrl = (case p_lastQrDataUrl p of
                               Some v \<Rightarrow> v
                             | None \<Rightarrow> (case entry of None \<Rightarrow> None | Some st \<Rightarrow> lastQrDataUrl st)),
            phone = (case p_phone p of
                       Some v \<Rightarrow> v
                     | None \<Rightarrow> (case entry of None \<Rightarrow> None | Some st \<Rightarrow> phone st)) \<rparr>"

text \<open>
  What the source does to the entry: \<^verbatim>\<open>setState\<close>, \<^verbatim>\<open>lines.delete\<close> and \<^verbatim>\<open>lines.set\<close>.
  A turn is the list of these that a handler runs without an \<^verbatim>\<open>await\<close> in between;
  no other code sees the entry inside a turn.
\<close>

datatype action = SetState patch | Lines_delete | Lines_set line_state

fun run_action :: "action \<Rightarrow> line_state option \<Rightarrow> line_state option" where
  "run_action (SetState p) entry = setState p entry"
| "run_action Lines_delete entry = None"
| "run_action (Lines_set st) entry = Some st"

fun run_turn :: "action list \<Rightarrow> line_state option \<Rightarrow> line_state option" where
  "run_turn [] entry = entry"
| "run_turn (x # xs) entry = run_turn xs (run_action x entry)"

definition only_status :: "status \<Rightarrow> patch" where
  "only_status s = \<lparr> p_status = s, p_lastQrDataUrl = None, p_phone = None \<rparr>"

definition cleared :: "status \<Rightarrow> patch" where
  "cleared s = \<lparr> p_status = s, p_lastQrDataUrl = Some None, p_phone = Some None \<rparr>"

text \<open>
  \<^verbatim>\<open>attachClient\<close> stores its \<^verbatim>\<open>state\<close> object and at once calls \<^verbatim>\<open>setState\<close> with
  \<^verbatim>\<open>{ status: "initializing", phone: null, lastQrDataUrl: null, project_id }\<close>, which
  puts a copy in its place.  (The assignment \<^verbatim>\<open>state.lastQrDataUrl = dataUrl\<close> of the
  \<^verbatim>\<open>qr\<close> handler changes that object, which is no longer the entry.)
\<close>

definition attached :: line_state where
  "attached = \<lparr> status = initializing, lastQrDataUrl = None, phone = None \<rparr>"

definition attach_turn :: "action list" where
  "attach_turn = [Lines_set attached, SetState (cleared initializing)]"

text \<open>
  The \<^verbatim>\<open>disconnected\<close> handler, after the turn it runs at once, goes through awaited
  steps (the store, the closing of the page and of the browser), then runs
  \<^verbatim>\<open>lines.delete(line_id)\<close> and \<^verbatim>\<open>setState(line_id, { status: "restarting" })\<close> in one
  turn, and sets a timer.  The timer builds and attaches a new client; its \<^verbatim>\<open>catch\<close>
  calls \<^verbatim>\<open>setState(line_id, { status: "error" })\<close>, a patch with the status only, on
  the entry it finds.  How far the handler gets:
\<close>

datatype restart =
    Stops_disconnected
  | Stops_restarting
  | Restart_attached
  | Restart_throws
  | Restart_attached_throws

definition restarting_turn :: "action list" where
  "restarting_turn = [Lines_delete, SetState (only_status restarting)]"

fun restart_turns :: "restart \<Rightarrow> action list list" where
  "restart_turns Stops_disconnected = []"
| "restart_turns Stops_restarting = [restarting_turn]"
| "restart_turns Restart_attached = [restarting_turn, attach_turn]"
| "restart_turns Restart_throws = [restarting_turn, [SetState (only_status error)]]"
| "restart_turns Restart_attached_throws =
     [restarting_turn, attach_turn, [SetState (only_status error)]]"

text \<open>
  The events: the five client events (\<^verbatim>\<open>qr\<close> with the rendered data URL, or
  \<open>None\<close> when \<^verbatim>\<open>QRCode.toDataURL\<close> throws and the handler only logs; \<^verbatim>\<open>ready\<close>
  with the number \<^verbatim>\<open>resolveMyNumber\<close> found, if any; \<^verbatim>\<open>disconnected\<close> with how far
  its handler gets) and the health probe \<^verbatim>\<open>probeLine\<close> (whether the client reports
  \<^verbatim>\<open>CONNECTED\<close>, and whether a call of the \<^verbatim>\<open>try\<close> block throws after the first
  \<^verbatim>\<open>setState\<close>, so that the \<^verbatim>\<open>catch\<close> block runs its own).
\<close>

datatype event =
    Ev_loading_screen
  | Ev_qr "string option"
  | Ev_authenticated
  | Ev_ready "string option"
  | Ev_disconnected restart
  | Ev_probe bool bool

text \<open>
  \<open>at_once e\<close> is the turn that the handler of \<open>e\<close> runs when the event is emitted,
  up to its first \<^verbatim>\<open>await\<close>: the handlers of \<^verbatim>\<open>loading_screen\<close>, \<^verbatim>\<open>authenticated\<close> and
  \<^verbatim>\<open>disconnected\<close> start with \<^verbatim>\<open>setState\<close>; those of \<^verbatim>\<open>qr\<close> and \<^verbatim>\<open>ready\<close> and the
  probe first await \<^verbatim>\<open>QRCode.toDataURL\<close>, \<^verbatim>\<open>resolveMyNumber\<close> and \<^verbatim>\<open>getState\<close>.
  \<open>later e\<close> lists the turns that the handler runs after that, in the order of the
  source, each when the awaited step before it is over.
\<close>

fun at_once :: "event \<Rightarrow> action list" where
  "at_once Ev_loading_screen = [SetState (only_status loading)]"
| "at_once (Ev_qr dataUrl) = []"
| "at_once Ev_authenticated = [SetState (only_status authenticated)]"
| "at_once (Ev_ready myPhone) = []"
| "at_once (Ev_disconnected r) = [SetState (cleared disconnected)]"
| "at_once (Ev_probe up throws) = []"

fun later :: "event \<Rightarrow> action list list" where
  "later Ev_loading_screen = []"
| "later (Ev_qr None) = []"
| "later (Ev_qr (Some dataUrl)) =
     [[SetState \<lparr> p_status = qr, p_lastQrDataUrl = Some (Some dataUrl), p_phone = Some None \<rparr>]]"
| "later Ev_authenticated = []"
| "later (Ev_ready myPhone) =
     [[SetState \<lparr> p_status = ready, p_lastQrDataUrl = None, p_phone = Some (or_null myPhone) \<rparr>]]"
| "later (Ev_disconnected r) = restart_turns r"
| "later (Ev_probe up throws) =
     [[SetState (if up then only_status ready else cleared disconnected)]] @
     (if throws then [[SetState (cleared disconnected)]] else [])"

text \<open>
  A run of the line: the entry, and for every handler started so far the turns it
  still has to run.  \<open>Fire e\<close> emits the event \<open>e\<close>: its handler runs its first
  turn and joins the handlers that wait.  \<open>Resume i\<close> lets the \<open>i\<close>-th handler
  started run its next turn, if it has one.  The turns of one handler keep their
  order; those of different handlers come in any order, as the awaited steps end.
\<close>

datatype move = Fire event | Resume nat

type_synonym config = "line_state option \<times> action list list list"

fun exec :: "config \<Rightarrow> move \<Rightarrow> config" where
  "exec (entry, pending) (Fire e) = (run_turn (at_once e) entry, pending @ [later e])"
| "exec (entry, pending) (Resume i) =
     (if i < length pending
      then (case pending ! i of
              [] \<Rightarrow> (entry, pending)
            | t # ts \<Rightarrow> (run_turn t entry, pending[i := ts]))
      else (entry, pending))"

text \<open>Every entry that a run shows, turn after turn, from the one that
  \<^verbatim>\<open>attachClient\<close> stores first.\<close>

fun entries :: "config \<Rightarrow> move list \<Rightarrow> line_state option list" where
  "entries c [] = [fst c]"
| "entries c (m # ms) = fst c # entries (exec c m) ms"

definition reachable :: "move list \<Rightarrow> line_state option list" where
  "reachable ms = entries (Some attached, []) ms"

section \<open>Inbound Router: \<^verbatim>\<open>recordIncomingChat\<close> and \<^verbatim>\<open>saveReceiptAndCreateConversion\<close>\<close>

text \<open>
  The process-wide set \<^verbatim>\<open>seenMsgs\<close> and the stores the router writes to.  A table
  is the list of its rows in insertion order, with the columns the properties
  below speak about; \<^verbatim>\<open>capi\<close> lists the calls of \<^verbatim>\<open>sendMetaCapiEvent\<close> and
  \<^verbatim>\<open>console\<close> the log lines of the receipt step and of the outer handler.  The
  upsert of \<^verbatim>\<open>wa_contact_names\<close> (inside its own \<^verbatim>\<open>try\<close>) is not modelled.
\<close>

record chat_row =
  chat_project_id :: "string option"
  chat_page_id :: "string option"
  chat_slug :: "string option"
  chat_contact :: string
  chat_message :: string

record agenda_row =
  ag_project_id :: "string option"
  ag_contact :: string
  ag_status :: string

record lead_row =
  lead_project_id :: "string option"
  lead_contact :: string
  lead_first_message :: "string option"

record conversion_row =
  conv_project_id :: "string option"
  conv_contact :: string
  conv_file_url :: "string option"
  conv_file_mime :: string
  conv_amount :: "rat option"
  conv_status :: string
  conv_reference :: "string option"
  conv_operation_no :: "string option"

datatype log_line =
    Log_ignored nat "rat option"
  | Log_processed nat "rat option"
  | Log_registered
  | Log_chat_track_error
  | Log_store_error string

record sys =
  seenMsgs :: "string set"
  analytics_chats :: "chat_row list"
  agenda :: "agenda_row list"
  analytics_leads :: "lead_row list"
  analytics_conversions :: "conversion_row list"
  receipts :: "(string \<times> string \<times> int \<times> string) list"
  capi :: "(string \<times> string \<times> rat option) list"
  console :: "log_line list"

text \<open>A message as the client hands it over.  \<open>msg_id\<close> is \<^verbatim>\<open>msg.id._serialized\<close>,
  \<open>None\<close> when \<^verbatim>\<open>msg\<close>, \<^verbatim>\<open>msg.id\<close> or it is missing.\<close>

record message =
  msg_id :: "string option"
  msg_from :: string
  fromMe :: bool
  body :: string
  caption :: string
  hasMedia :: bool
  msg_type :: string

record media =
  media_data :: string
  media_mimetype :: string
  media_filename :: string

record page =
  page_id :: string
  page_slug :: string
  page_project_id :: "string option"

text \<open>
  What the world outside answers during one delivery.  A call to the store ends in
  one of three ways: it resolves (\<open>Done\<close>), it resolves with an \<^verbatim>\<open>error\<close> field
  (\<open>Failed\<close>), or it throws (\<open>Thrown\<close>).  \<open>w_line_project\<close> and \<open>w_line_phone\<close> are
  the fields of the line's in-memory state, \<open>w_media\<close> is what \<^verbatim>\<open>downloadMedia\<close>
  returns (\<open>None\<close> when it throws or returns nothing), \<open>w_ocr_text\<close> what
  \<^verbatim>\<open>ocrFromMedia\<close> returns (the empty text on every failure), \<open>w_now\<close> the clock.
\<close>

datatype 'a reply = Done 'a | Failed | Thrown

record world =
  w_line_project :: "string option"
  w_line_phone :: "string option"
  w_fetch_project :: "string option reply"
  w_page :: "page option reply"
  w_chat_insert :: "unit reply"
  w_agenda_new :: "unit reply"
  w_lead_select :: "unit reply"
  w_lead_insert :: "unit reply"
  w_lead_upsert :: "unit reply"
  w_media :: "media option"
  w_ocr_text :: string
  w_sharp :: bool
  w_tile_ok :: "nat \<Rightarrow> nat \<Rightarrow> bool"
  w_tile_ocr :: "nat \<Rightarrow> nat \<Rightarrow> nat \<Rightarrow> nat \<Rightarrow> string"
  w_mp_force :: bool
  w_now :: int
  w_upload :: "string option reply"
  w_conv_insert :: "unit reply"
  w_agenda_conv :: "unit reply"
  w_agenda_update :: "unit reply"

text \<open>The course of one handler: \<open>Go\<close> while it runs on, \<open>Halt\<close> once an exception is
  on its way to the outer \<^verbatim>\<open>catch\<close>.\<close>

datatype flow = Go sys | Halt sys

definition and_then :: "flow \<Rightarrow> (sys \<Rightarrow> flow) \<Rightarrow> flow" where
  "and_then f k = (case f of Go s \<Rightarrow> k s | Halt s \<Rightarrow> Halt s)"

definition state_of :: "flow \<Rightarrow> sys" where
  "state_of f = (case f of Go s \<Rightarrow> s | Halt s \<Rightarrow> s)"

definition say :: "log_line \<Rightarrow> sys \<Rightarrow> sys" where
  "say l s = s\<lparr> console := console s @ [l] \<rparr>"

text \<open>A write whose \<^verbatim>\<open>error\<close> the source checks and logs, outside any inner
  \<^verbatim>\<open>try\<close>.\<close>

definition checked_write :: "unit reply \<Rightarrow> string \<Rightarrow> (sys \<Rightarrow> sys) \<Rightarrow> sys \<Rightarrow> flow" where
  "checked_write r tag_name f s =
     (case r of Done u \<Rightarrow> Go (f s) | Failed \<Rightarrow> Go (say (Log_store_error tag_name) s) | Thrown \<Rightarrow> Halt s)"

text \<open>The rows of a table with a conflict key: an upsert replaces the row of the
  same key or appends.\<close>

fun upsert_agenda :: "agenda_row \<Rightarrow> agenda_row list \<Rightarrow> agenda_row list" where
  "upsert_agenda x [] = [x]"
| "upsert_agenda x (y # ys) =
     (if ag_project_id y = ag_project_id x \<and> ag_contact y = ag_contact x then x # ys
      else y # upsert_agenda x ys)"

fun upsert_lead :: "lead_row \<Rightarrow> lead_row list \<Rightarrow> lead_row list" where
  "upsert_lead x [] = [x]"
| "upsert_lead x (y # ys) =
     (if lead_project_id y = lead_project_id x \<and> lead_contact y = lead_contact x
      then y\<lparr> lead_first_message := lead_first_message x \<rparr> # ys
      else y # upsert_lead x ys)"

definition lead_exists :: "string option \<Rightarrow> string \<Rightarrow> lead_row list \<Rightarrow> bool" where
  "lead_exists pid contact rows =
     list_ex (\<lambda>y. lead_project_id y = pid \<and> lead_contact y = contact) rows"

definition update_agenda_status :: "string option \<Rightarrow> string \<Rightarrow> string \<Rightarrow> agenda_row list \<Rightarrow> agenda_row list" where
  "update_agenda_status pid contact st rows =
     map (\<lambda>y. if ag_project_id y = pid \<and> ag_contact y = contact then y\<lparr> ag_status := st \<rparr> else y) rows"


text \<open>What \<^verbatim>\<open>recordIncomingChat\<close> works out before it writes: the contact, the
  project, the page and slug of a \<^verbatim>\<open>#p:slug\<close> tag, the line's own number.\<close>

record ctx =
  cx_project_id :: "string option"
  cx_page_id :: "string option"
  cx_slug :: "string option"
  cx_contact :: string
  cx_wa_phone :: "string option"

definition ends_with :: "string \<Rightarrow> string \<Rightarrow> bool" where
  "ends_with suf t = (take (length suf) (rev t) = rev suf)"

definition toLowerCase :: "string \<Rightarrow> string" where
  "toLowerCase t = map low_char t"

text \<open>\<^verbatim>\<open>[a, b].filter(Boolean).join(sep)\<close>\<close>

definition join2 :: "string \<Rightarrow> string \<Rightarrow> string \<Rightarrow> string" where
  "join2 sep x y = (if x = [] then y else if y = [] then x else x @ sep @ y)"

definition textForTag :: "message \<Rightarrow> string" where
  "textForTag msg = join2 '' '' (body msg) (trim (caption msg))"

text \<open>\<^verbatim>\<open>/#p:([a-z0-9._-]+)/i\<close>\<close>

definition RE_TAG :: rx where
  "RE_TAG =
     Seq (lit ''#p:'')
         (Grp 1 (Plus (In [R (CHR ''a'') (CHR ''z''), R (CHR ''0'') (CHR ''9''),
                           C (CHR ''.''), C (CHR ''_''), C (CHR ''-'')])))"

definition taggedSlug :: "message \<Rightarrow> string option" where
  "taggedSlug msg =
     (case rx_match True RE_TAG (textForTag msg) of None \<Rightarrow> None | Some m \<Rightarrow> Some (group1 m))"

definition contact_of :: "message \<Rightarrow> string" where
  "contact_of msg = filter is_digit (takeWhile (\<lambda>c. c \<noteq> CHR ''@'') (toLowerCase (msg_from msg)))"

text \<open>\<^verbatim>\<open>st.project_id || (await fetchProjectIdForLine(line_id))\<close>; the helper returns
  \<^verbatim>\<open>null\<close> on an error of the store.\<close>

definition line_project :: "world \<Rightarrow> string option reply" where
  "line_project w =
     (case or_null (w_line_project w) of
        Some p \<Rightarrow> Done (Some p)
      | None \<Rightarrow> (case w_fetch_project w of
                   Done x \<Rightarrow> Done (or_null x) | Failed \<Rightarrow> Done None | Thrown \<Rightarrow> Thrown))"

definition first_some :: "string option \<Rightarrow> string option \<Rightarrow> string option" where
  "first_some x y = (case or_null x of None \<Rightarrow> y | Some t \<Rightarrow> Some t)"

text \<open>\<open>None\<close> when one of the two reads throws.\<close>

definition resolve_ctx :: "world \<Rightarrow> message \<Rightarrow> ctx option" where
  "resolve_ctx w msg =
     (case line_project w of
        Done pid0 \<Rightarrow>
          (case taggedSlug msg of
             None \<Rightarrow>
               Some \<lparr> cx_project_id = pid0, cx_page_id = None, cx_slug = None,
                      cx_contact = contact_of msg, cx_wa_phone = or_null (w_line_phone w) \<rparr>
           | Some tslug \<Rightarrow>
               (case w_page w of
                  Thrown \<Rightarrow> None
                | Done (Some pg) \<Rightarrow>
                    Some \<lparr> cx_project_id = first_some (page_project_id pg) pid0,
                           cx_page_id = Some (page_id pg), cx_slug = Some (page_slug pg),
                           cx_contact = contact_of msg, cx_wa_phone = or_null (w_line_phone w) \<rparr>
                | _ \<Rightarrow>
                    Some \<lparr> cx_project_id = pid0, cx_page_id = None, cx_slug = or_null (Some tslug),
                           cx_contact = contact_of msg, cx_wa_phone = or_null (w_line_phone w) \<rparr>))
      | _ \<Rightarrow> None)"

text \<open>Step 1, the chat row, and step 3, the agenda row with status new.\<close>

definition chat_of :: "ctx \<Rightarrow> message \<Rightarrow> chat_row" where
  "chat_of cx msg =
     \<lparr> chat_project_id = cx_project_id cx, chat_page_id = cx_page_id cx, chat_slug = cx_slug cx,
       chat_contact = cx_contact cx,
       chat_message = (if body msg \<noteq> [] then body msg else trim (caption msg)) \<rparr>"

definition insert_chat :: "ctx \<Rightarrow> message \<Rightarrow> sys \<Rightarrow> sys" where
  "insert_chat cx msg s = s\<lparr> analytics_chats := analytics_chats s @ [chat_of cx msg] \<rparr>"

definition set_agenda :: "ctx \<Rightarrow> string \<Rightarrow> sys \<Rightarrow> sys" where
  "set_agenda cx st s =
     s\<lparr> agenda := upsert_agenda \<lparr> ag_project_id = cx_project_id cx, ag_contact = cx_contact cx,
                                   ag_status = st \<rparr> (agenda s) \<rparr>"

text \<open>Step 3.1, the lead written once; the whole step is inside a \<^verbatim>\<open>try\<close>.  When the
  select resolves with an error its \<^verbatim>\<open>data\<close> is empty and the insert is tried.\<close>

definition insert_lead :: "ctx \<Rightarrow> sys \<Rightarrow> sys" where
  "insert_lead cx s =
     s\<lparr> analytics_leads := analytics_leads s @
          [\<lparr> lead_project_id = cx_project_id cx, lead_contact = cx_contact cx,
             lead_first_message = None \<rparr>] \<rparr>"

definition lead_once :: "ctx \<Rightarrow> world \<Rightarrow> sys \<Rightarrow> sys" where
  "lead_once cx w s =
     (case w_lead_select w of
        Thrown \<Rightarrow> s
      | sel \<Rightarrow>
          if sel = Done () \<and> lead_exists (cx_project_id cx) (cx_contact cx) (analytics_leads s) then s
          else (case w_lead_insert w of
                  Done u \<Rightarrow> insert_lead cx s
                | Failed \<Rightarrow> say (Log_store_error ''analytics_leads'') s
                | Thrown \<Rightarrow> s))"

text \<open>Step 3.2, the lead of the discount-code greeting:
  \<^verbatim>\<open>/^\s*hola\s+mi\s+c[o\u00F3]digo\s+de\s+descuento\s+es\s*[:\-]?\s*\S+/i\<close>.\<close>

definition leadRe :: rx where
  "leadRe =
     seqs [Bol, Star (In cs), lit ''hola'', Plus (In cs), lit ''mi'', Plus (In cs),
           lit ''c'', o_acc, lit ''digo'', Plus (In cs), lit ''de'', Plus (In cs),
           lit ''descuento'', Plus (In cs), lit ''es'', Star (In cs),
           Opt (In [C (CHR '':''), C (CHR ''-'')]), Star (In cs), Plus (NotIn cs)]"

definition lead_trigger :: "ctx \<Rightarrow> message \<Rightarrow> world \<Rightarrow> sys \<Rightarrow> sys" where
  "lead_trigger cx msg w s =
     (if rx_test True leadRe (toLowerCase (textForTag msg))
      then (case w_lead_upsert w of
              Done u \<Rightarrow>
                s\<lparr> analytics_leads :=
                     upsert_lead \<lparr> lead_project_id = cx_project_id cx, lead_contact = cx_contact cx,
                                   lead_first_message = Some (take 1000 (textForTag msg)) \<rparr>
                                 (analytics_leads s) \<rparr>
            | _ \<Rightarrow> s)
      else s)"

definition capi_event :: "ctx \<Rightarrow> string \<Rightarrow> rat option \<Rightarrow> sys \<Rightarrow> sys" where
  "capi_event cx name v s =
     (if cx_page_id cx = None then s else s\<lparr> capi := capi s @ [(name, cx_contact cx, v)] \<rparr>)"

subsection \<open>\<^verbatim>\<open>saveReceiptAndCreateConversion\<close>\<close>

definition js_split_slash_1 :: "string \<Rightarrow> string" where
  "js_split_slash_1 t = (case split_on (CHR ''/'') t of p0 # p1 # ps \<Rightarrow> p1 | _ \<Rightarrow> [])"

definition file_ext :: "bool \<Rightarrow> bool \<Rightarrow> string \<Rightarrow> string \<Rightarrow> string" where
  "file_ext isImage isPdf file_mime lower =
     (if isImage
      then (if js_split_slash_1 file_mime \<noteq> [] then js_split_slash_1 file_mime
            else if last (split_on (CHR ''.'') lower) \<noteq> [] then last (split_on (CHR ''.'') lower)
            else ''jpg'')
      else if isPdf then ''pdf'' else ''bin'')"

definition file_mime_of :: "media \<Rightarrow> string" where
  "file_mime_of md = (if media_mimetype md = [] then ''application/octet-stream'' else media_mimetype md)"

definition is_image_file :: "media \<Rightarrow> bool" where
  "is_image_file md =
     (rx_test True (Seq Bol (lit ''image/'')) (file_mime_of md) \<or>
      rx_test True (seqs [lit ''.'', Grp 1 (alts [lit ''jpg'', lit ''jpeg'', lit ''png'', lit ''webp'', lit ''gif'']), Eol])
        (toLowerCase (media_filename md)))"

definition is_pdf_file :: "media \<Rightarrow> bool" where
  "is_pdf_file md =
     (file_mime_of md = ''application/pdf'' \<or>
      rx_test True (seqs [lit ''.pdf'', Eol]) (toLowerCase (media_filename md)))"

text \<open>The upload, inside its own \<^verbatim>\<open>try\<close>: the public URL or \<^verbatim>\<open>null\<close>, and the state
  with the object stored under project, digits of the contact, clock and
  extension.\<close>

definition upload :: "ctx \<Rightarrow> media \<Rightarrow> world \<Rightarrow> sys \<Rightarrow> string option \<times> sys" where
  "upload cx md w s =
     (if media_data md \<noteq> [] \<and> (is_image_file md \<or> is_pdf_file md)
      then (case w_upload w of
              Done url \<Rightarrow>
                (or_null url,
                 s\<lparr> receipts := receipts s @
                      [(case or_null (cx_project_id cx) of None \<Rightarrow> ''na'' | Some p \<Rightarrow> p,
                        filter is_digit (if cx_contact cx = [] then ''unknown'' else cx_contact cx),
                        w_now w,
                        file_ext (is_image_file md) (is_pdf_file md) (file_mime_of md)
                                 (toLowerCase (media_filename md)))] \<rparr>)
            | _ \<Rightarrow> (None, say (Log_store_error ''receipts'') s))
      else (None, s))"

text \<open>The amount of \<^verbatim>\<open>extractReceiptFields\<close>, used when no amount is forced.\<close>

definition extractReceiptFields_amount :: "string \<Rightarrow> rat option" where
  "extractReceiptFields_amount text =
     (if text = [] then None
      else (case parseByTemplate text of
              Some (p, a) \<Rightarrow> Some a
            | None \<Rightarrow> (case findBestAmount text of
                         None \<Rightarrow> None
                       | Some a \<Rightarrow> if a = 0 then None else Some a)))"

definition conversion_of :: "ctx \<Rightarrow> media \<Rightarrow> string \<Rightarrow> rat option \<Rightarrow> string option \<Rightarrow> conversion_row" where
  "conversion_of cx md captionText forceAmount file_url =
     \<lparr> conv_project_id = cx_project_id cx,
       conv_contact = cx_contact cx,
       conv_file_url = file_url,
       conv_file_mime = file_mime_of md,
       conv_amount = (case forceAmount of Some a \<Rightarrow> Some a | None \<Rightarrow> extractReceiptFields_amount captionText),
       conv_status = ''received'',
       conv_reference = or_null (extractReceiptFields_reference captionText),
       conv_operation_no = or_null (extractReceiptFields_transaction captionText) \<rparr>"

definition insert_conversion :: "conversion_row \<Rightarrow> sys \<Rightarrow> sys" where
  "insert_conversion row s = s\<lparr> analytics_conversions := analytics_conversions s @ [row] \<rparr>"

definition saveReceiptAndCreateConversion ::
  "ctx \<Rightarrow> media \<Rightarrow> string \<Rightarrow> rat option \<Rightarrow> world \<Rightarrow> sys \<Rightarrow> flow" where
  "saveReceiptAndCreateConversion cx md captionText forceAmount w s =
     and_then
       (checked_write (w_conv_insert w) ''analytics_conversions''
          (insert_conversion (conversion_of cx md captionText forceAmount (fst (upload cx md w s))))
          (snd (upload cx md w s)))
       (checked_write (w_agenda_conv w) ''agenda'' (set_agenda cx ''conversion''))"

subsection \<open>The receipt step of \<^verbatim>\<open>recordIncomingChat\<close>\<close>

text \<open>The score, amount and provider after the amount-normalisation rules, for the
  combined text and the media of the message.\<close>

definition normalized :: "media \<Rightarrow> string \<Rightarrow> world \<Rightarrow> scored" where
  "normalized md combined w =
     normalize_amount (w_mp_force w) combined (media_mimetype md)
       (tryExtractAmountFromImage (w_sharp w) (media_mimetype md) (w_tile_ok w) (w_tile_ocr w))
       (scoreReceiptText combined)"

text \<open>The agenda update after the conversion: its result is not looked at.\<close>

definition agenda_update :: "ctx \<Rightarrow> world \<Rightarrow> sys \<Rightarrow> flow" where
  "agenda_update cx w s =
     (case w_agenda_update w of
        Done u \<Rightarrow> Go (s\<lparr> agenda := update_agenda_status (cx_project_id cx) (cx_contact cx)
                                       ''conversion'' (agenda s) \<rparr>)
      | Failed \<Rightarrow> Go s
      | Thrown \<Rightarrow> Halt s)"

definition after_conversion :: "ctx \<Rightarrow> scored \<Rightarrow> sys \<Rightarrow> flow" where
  "after_conversion cx rs s =
     Go (capi_event cx ''Purchase'' (amount rs) (say (Log_processed (score rs) (amount rs)) s))"

text \<open>From the scoring on: the gate, then either the conversion or the log line of
  the rejection.\<close>

definition gate_step :: "ctx \<Rightarrow> media \<Rightarrow> string \<Rightarrow> scored \<Rightarrow> world \<Rightarrow> sys \<Rightarrow> flow" where
  "gate_step cx md combined rs w s =
     (if accept rs
      then and_then
             (and_then (saveReceiptAndCreateConversion cx md combined (amount rs) w s)
                       (agenda_update cx w))
             (after_conversion cx rs)
      else Go (say (Log_ignored (score rs) (amount rs)) s))"

definition scoring_step :: "ctx \<Rightarrow> media \<Rightarrow> string \<Rightarrow> world \<Rightarrow> sys \<Rightarrow> flow" where
  "scoring_step cx md combined w s = gate_step cx md combined (normalized md combined w) w s"

definition combined_text :: "message \<Rightarrow> world \<Rightarrow> string" where
  "combined_text msg w =
     join2 [CHR 0x0A] (trim (if caption msg \<noteq> [] then caption msg else body msg)) (w_ocr_text w)"

definition receipt_step :: "ctx \<Rightarrow> message \<Rightarrow> world \<Rightarrow> sys \<Rightarrow> flow" where
  "receipt_step cx msg w s =
     (if hasMedia msg \<or> msg_type msg = ''image'' \<or> msg_type msg = ''document''
      then (case w_media w of
              None \<Rightarrow> Go s
            | Some md \<Rightarrow>
                if media_data md \<noteq> [] \<and>
                   (rx_test True RE_IMAGE (media_mimetype md) \<or> media_mimetype md = ''application/pdf'')
                then scoring_step cx md (combined_text msg w) w s
                else Go s)
      else Go s)"

subsection \<open>\<^verbatim>\<open>recordIncomingChat\<close>\<close>

definition leads_and_events :: "ctx \<Rightarrow> message \<Rightarrow> world \<Rightarrow> sys \<Rightarrow> flow" where
  "leads_and_events cx msg w s =
     Go (capi_event cx ''Lead'' None (lead_trigger cx msg w (lead_once cx w s)))"

definition registered :: "sys \<Rightarrow> flow" where
  "registered s = Go (say Log_registered s)"

text \<open>The body of the handler once the message is new, from an individual chat and
  not the line's own.\<close>

definition track :: "message \<Rightarrow> world \<Rightarrow> sys \<Rightarrow> flow" where
  "track msg w s =
     (case resolve_ctx w msg of
        None \<Rightarrow> Halt s
      | Some cx \<Rightarrow>
          and_then
            (and_then
              (and_then
                (and_then (checked_write (w_chat_insert w) ''analytics_chats'' (insert_chat cx msg) s)
                          (checked_write (w_agenda_new w) ''agenda'' (set_agenda cx ''new'')))
                (leads_and_events cx msg w))
              (receipt_step cx msg w))
            registered)"

text \<open>The handler up to its outer \<^verbatim>\<open>catch\<close>: the early returns, the seen-set, then
  the body.\<close>

definition handle :: "message \<Rightarrow> world \<Rightarrow> sys \<Rightarrow> flow" where
  "handle msg w s =
     (case or_null (msg_id msg) of
        None \<Rightarrow> Go s
      | Some key \<Rightarrow>
          if key \<in> seenMsgs s then Go s
          else if \<not> ends_with ''@c.us'' (toLowerCase (msg_from msg)) \<or> fromMe msg
          then Go (s\<lparr> seenMsgs := insert key (seenMsgs s) \<rparr>)
          else track msg w (s\<lparr> seenMsgs := insert key (seenMsgs s) \<rparr>))"

definition recordIncomingChat :: "message \<Rightarrow> world \<Rightarrow> sys \<Rightarrow> sys" where
  "recordIncomingChat msg w s =
     (case handle msg w s of Go s' \<Rightarrow> s' | Halt s' \<Rightarrow> say Log_chat_track_error s')"


section \<open>Notions used to state the properties\<close>

text \<open>The invariant of the line state that every turn of a handler keeps.\<close>

definition inv_line :: "line_state \<Rightarrow> bool" where
  "inv_line st =
     ((phone st \<noteq> None \<longrightarrow> status st \<in> {ready, loading, authenticated, error}) \<and>
      (lastQrDataUrl st \<noteq> None \<longrightarrow> status st \<in> {qr, loading, authenticated, ready, error}))"

definition entry_ok :: "line_state option \<Rightarrow> bool" where
  "entry_ok entry = (case entry of None \<Rightarrow> False | Some st \<Rightarrow> inv_line st)"

definition keeps :: "action list \<Rightarrow> bool" where
  "keeps t = (\<forall>entry. entry_ok entry \<longrightarrow> entry_ok (run_turn t entry))"

definition config_ok :: "config \<Rightarrow> bool" where
  "config_ok c = (entry_ok (fst c) \<and> (\<forall>h \<in> set (snd c). \<forall>t \<in> set h. keeps t))"

text \<open>
  The value of one tile of the grid: what the loop over the pre-processing variants
  leaves for a tile that is cut out, nothing for a tile that is skipped.  The tiles
  are listed row by row, as the two loops visit them.
\<close>

definition tile_value :: "(nat \<Rightarrow> nat \<Rightarrow> bool) \<Rightarrow> (nat \<Rightarrow> nat \<Rightarrow> nat \<Rightarrow> nat \<Rightarrow> string) \<Rightarrow> nat \<Rightarrow> nat \<Rightarrow> rat option" where
  "tile_value tile_ok ocr r c =
     (if tile_ok r c then pipelines_loop (ocr r c) pipelines None else None)"

text \<open>The first value of a list of optional values.\<close>

fun first_value :: "rat option list \<Rightarrow> rat option" where
  "first_value [] = None"
| "first_value (None # xs) = first_value xs"
| "first_value (Some v # xs) = Some v"

definition row_values :: "(nat \<Rightarrow> nat \<Rightarrow> bool) \<Rightarrow> (nat \<Rightarrow> nat \<Rightarrow> nat \<Rightarrow> nat \<Rightarrow> string) \<Rightarrow> nat \<Rightarrow> rat option list" where
  "row_values tile_ok ocr r = map (tile_value tile_ok ocr r) COLS"

definition tile_values :: "(nat \<Rightarrow> nat \<Rightarrow> bool) \<Rightarrow> (nat \<Rightarrow> nat \<Rightarrow> nat \<Rightarrow> nat \<Rightarrow> string) \<Rightarrow> rat option list" where
  "tile_values tile_ok ocr = concat (map (row_values tile_ok ocr) ROWS)"

text \<open>
  The fallback as the specification words it (section 4.5): keep the maximum positive
  result across tiles; return that maximum or null.
\<close>

fun max_value :: "rat option list \<Rightarrow> rat option" where
  "max_value [] = None"
| "max_value (None # xs) = max_value xs"
| "max_value (Some v # xs) = (case max_value xs of None \<Rightarrow> Some v | Some m \<Rightarrow> Some (max v m))"

definition visual_amount_fallback_spec :: "bool \<Rightarrow> string \<Rightarrow> (nat \<Rightarrow> nat \<Rightarrow> bool) \<Rightarrow> (nat \<Rightarrow> nat \<Rightarrow> nat \<Rightarrow> nat \<Rightarrow> string) \<Rightarrow> rat option" where
  "visual_amount_fallback_spec sharp mimetype tile_ok ocr =
     (if sharp \<and> rx_test True RE_IMAGE_JPG mimetype then max_value (tile_values tile_ok ocr) else None)"

text \<open>An image whose first tile reads \<^verbatim>\<open>$ 12\<close> and whose second tile reads
  \<^verbatim>\<open>$ 500\<close>; nothing is recognised on the other tiles.\<close>

definition all_tiles_ok :: "nat \<Rightarrow> nat \<Rightarrow> bool" where
  "all_tiles_ok r c = True"

definition two_tile_ocr :: "nat \<Rightarrow> nat \<Rightarrow> nat \<Rightarrow> nat \<Rightarrow> string" where
  "two_tile_ocr r c p psm = (if r = 0 \<and> c = 0 then ''$ 12'' else if r = 0 \<and> c = 1 then ''$ 500'' else [])"



text \<open>
  How far a step may move the state: the seen-set stays, no table loses a row, and
  the chat, lead and conversion tables gain at most \<open>c\<close>, \<open>l\<close> and \<open>v\<close> rows.
\<close>

definition delta :: "nat \<Rightarrow> nat \<Rightarrow> nat \<Rightarrow> sys \<Rightarrow> sys \<Rightarrow> bool" where
  "delta c l v s s' =
     (seenMsgs s' = seenMsgs s \<and>
      length (analytics_chats s) \<le> length (analytics_chats s') \<and>
      length (analytics_chats s') \<le> length (analytics_chats s) + c \<and>
      length (analytics_leads s) \<le> length (analytics_leads s') \<and>
      length (analytics_leads s') \<le> length (analytics_leads s) + l \<and>
      length (analytics_conversions s) \<le> length (analytics_conversions s') \<and>
      length (analytics_conversions s') \<le> length (analytics_conversions s) + v)"

text \<open>The status of the agenda row of a project and contact.\<close>

definition agenda_status :: "string option \<Rightarrow> string \<Rightarrow> agenda_row list \<Rightarrow> string option" where
  "agenda_status pid contact rows =
     (case filter (\<lambda>y. ag_project_id y = pid \<and> ag_contact y = contact) rows of
        [] \<Rightarrow> None
      | y # ys \<Rightarrow> Some (ag_status y))"

text \<open>
  Concrete inputs: an empty system; a world in which every call resolves and the line
  has project \<^verbatim>\<open>p1\<close>; the same world with the insert into \<^verbatim>\<open>analytics_chats\<close>
  throwing; a text message \<^verbatim>\<open>hola\<close> from an individual chat; an image message
  whose recognised text is \<^verbatim>\<open>Pagaste $ 500\<close>.
\<close>

definition empty_sys :: sys where
  "empty_sys = \<lparr> seenMsgs = {}, analytics_chats = [], agenda = [], analytics_leads = [],
                 analytics_conversions = [], receipts = [], capi = [], console = [] \<rparr>"

definition no_ocr :: "nat \<Rightarrow> nat \<Rightarrow> nat \<Rightarrow> nat \<Rightarrow> string" where
  "no_ocr r c p psm = []"

definition calm_world :: world where
  "calm_world =
     \<lparr> w_line_project = Some ''p1'', w_line_phone = Some ''5491122223333'',
       w_fetch_project = Done None, w_page = Done None,
       w_chat_insert = Done (), w_agenda_new = Done (),
       w_lead_select = Done (), w_lead_insert = Done (), w_lead_upsert = Done (),
       w_media = None, w_ocr_text = [], w_sharp = True,
       w_tile_ok = all_tiles_ok, w_tile_ocr = no_ocr, w_mp_force = True, w_now = 1700000000000,
       w_upload = Done (Some ''https://store/receipts/p1/5491100000000/1700000000000.png''),
       w_conv_insert = Done (), w_agenda_conv = Done (), w_agenda_update = Done () \<rparr>"

definition throwing_world :: world where
  "throwing_world = calm_world\<lparr> w_chat_insert := Thrown \<rparr>"

definition hola_msg :: message where
  "hola_msg =
     \<lparr> msg_id = Some ''false_5491100000000@c.us_3EB0A1'', msg_from = ''5491100000000@c.us'',
       fromMe = False, body = ''hola'', caption = [], hasMedia = False, msg_type = ''chat'' \<rparr>"

definition png_media :: media where
  "png_media = \<lparr> media_data = ''iVBORw0KGgo='', media_mimetype = ''image/png'', media_filename = [] \<rparr>"

definition hola_ctx :: ctx where
  "hola_ctx = \<lparr> cx_project_id = Some ''p1'', cx_page_id = None, cx_slug = None,
                cx_contact = ''5491100000000'', cx_wa_phone = Some ''5491122223333'' \<rparr>"






section \<open>Properties of the line state\<close>

lemma ok_only_status:
  "s \<in> {loading, authenticated, ready, error} \<Longrightarrow> entry_ok entry \<Longrightarrow>
   entry_ok (setState (only_status s) entry)"
  by (cases entry) (auto simp: entry_ok_def inv_line_def setState_def only_status_def)

lemma ok_only_status_new: "entry_ok (setState (only_status s) None)"
  by (simp add: entry_ok_def inv_line_def setState_def only_status_def)

lemma ok_cleared: "entry_ok (setState (cleared s) entry)"
  by (simp add: entry_ok_def inv_line_def setState_def cleared_def)

lemma ok_qr:
  "entry_ok (setState \<lparr> p_status = qr, p_lastQrDataUrl = Some d, p_phone = Some None \<rparr> entry)"
  by (simp add: entry_ok_def inv_line_def setState_def)

lemma ok_ready:
  "entry_ok entry \<Longrightarrow>
   entry_ok (setState \<lparr> p_status = ready, p_lastQrDataUrl = None, p_phone = Some p \<rparr> entry)"
  by (cases entry) (auto simp: entry_ok_def inv_line_def setState_def)

lemma keeps_at_once: "keeps (at_once e)"
  by (cases e) (simp_all add: keeps_def ok_only_status ok_cleared)

lemma keeps_restart: "t \<in> set (restart_turns r) \<Longrightarrow> keeps t"
  by (cases r)
     (auto simp: keeps_def restarting_turn_def attach_turn_def ok_only_status ok_only_status_new ok_cleared)

lemma keeps_later: "t \<in> set (later e) \<Longrightarrow> keeps t"
proof (cases e)
  case (Ev_disconnected r)
  assume "t \<in> set (later e)"
  with Ev_disconnected show ?thesis by (simp add: keeps_restart)
next
  case (Ev_qr d)
  assume "t \<in> set (later e)"
  with Ev_qr show ?thesis by (cases d) (simp_all add: keeps_def ok_qr)
next
  case (Ev_ready p)
  assume "t \<in> set (later e)"
  with Ev_ready show ?thesis by (simp add: keeps_def ok_ready)
next
  case (Ev_probe up throws)
  assume "t \<in> set (later e)"
  with Ev_probe show ?thesis
    by (auto simp: keeps_def ok_only_status ok_cleared split: if_splits)
qed simp_all

lemma config_ok_exec: "config_ok c \<Longrightarrow> config_ok (exec c m)"
proof (cases c)
  case (Pair entry pending)
  assume ok: "config_ok c"
  show ?thesis
  proof (cases m)
    case (Fire e)
    from ok Pair have "entry_ok (run_turn (at_once e) entry)"
      using keeps_at_once [of e] by (simp add: config_ok_def keeps_def)
    with ok Pair Fire show ?thesis by (auto simp: config_ok_def dest: keeps_later)
  next
    case (Resume i)
    show ?thesis
    proof (cases "i < length pending")
      case False
      with ok Pair Resume show ?thesis by simp
    next
      case True
      show ?thesis
      proof (cases "pending ! i")
        case Nil
        with ok Pair Resume True show ?thesis by simp
      next
        case (Cons t ts)
        from True have mem: "pending ! i \<in> set pending" by simp
        with ok Pair Cons have kt: "keeps t" and kts: "\<forall>u \<in> set ts. keeps u"
          by (auto simp: config_ok_def)
        from ok Pair kt have e: "entry_ok (run_turn t entry)" by (simp add: config_ok_def keeps_def)
        have "\<forall>h \<in> set (pending[i := ts]). \<forall>u \<in> set h. keeps u"
        proof
          fix h assume "h \<in> set (pending[i := ts])"
          then have "h = ts \<or> h \<in> set pending" using set_update_subset_insert by fastforce
          with kts ok Pair show "\<forall>u \<in> set h. keeps u" by (auto simp: config_ok_def)
        qed
        with e Pair Resume True Cons show ?thesis by (simp add: config_ok_def)
      qed
    qed
  qed
qed

lemma config_ok_entries: "config_ok c \<Longrightarrow> x \<in> set (entries c ms) \<Longrightarrow> entry_ok x"
proof (induction ms arbitrary: c)
  case Nil
  then show ?case by (simp add: config_ok_def)
next
  case (Cons m ms)
  from Cons.prems(2) have "x = fst c \<or> x \<in> set (entries (exec c m) ms)" by simp
  then show ?case
  proof
    assume "x = fst c"
    with Cons.prems(1) show ?thesis by (simp add: config_ok_def)
  next
    assume "x \<in> set (entries (exec c m) ms)"
    with config_ok_exec [OF Cons.prems(1)] show ?thesis by (rule Cons.IH)
  qed
qed

text \<open>
  Claim C6, as the code has it: in every in-memory line state reachable by a
  sequence of client events and health probes, whatever the order in which the
  awaited steps of their handlers end, the line has an entry; a phone number is only
  present while the status is ready, loading, authenticated or error, and a QR
  rendering is only present while the status is qr, loading, authenticated, ready or
  error.  (The handlers of \<^verbatim>\<open>loading_screen\<close> and \<^verbatim>\<open>authenticated\<close>, the probe of a
  connected client and the \<^verbatim>\<open>catch\<close> of the restart give \<^verbatim>\<open>setState\<close> the status
  only, and the \<^verbatim>\<open>ready\<close> handler the status and the phone: the other fields stay
  as they are.)
\<close>

theorem line_state_invariant:
  "\<forall>entry \<in> set (reachable ms). \<exists>st. entry = Some st \<and>
     (phone st \<noteq> None \<longrightarrow> status st \<in> {ready, loading, authenticated, error}) \<and>
     (lastQrDataUrl st \<noteq> None \<longrightarrow> status st \<in> {qr, loading, authenticated, ready, error})"
proof
  fix entry assume "entry \<in> set (reachable ms)"
  moreover have "config_ok (Some attached, [])"
    by (simp add: config_ok_def entry_ok_def inv_line_def attached_def)
  ultimately have "entry_ok entry" unfolding reachable_def by (blast intro: config_ok_entries)
  then show "\<exists>st. entry = Some st \<and>
     (phone st \<noteq> None \<longrightarrow> status st \<in> {ready, loading, authenticated, error}) \<and>
     (lastQrDataUrl st \<noteq> None \<longrightarrow> status st \<in> {qr, loading, authenticated, ready, error})"
    by (cases entry) (simp_all add: entry_ok_def inv_line_def)
qed

text \<open>
  The invariant at work.  A \<^verbatim>\<open>ready\<close> handler waits for the number; the line is
  disconnected and set to restarting; the \<^verbatim>\<open>ready\<close> handler stores the number; the
  restart throws: the entry has the number and the status error.  And after \<^verbatim>\<open>qr\<close>,
  \<^verbatim>\<open>authenticated\<close>, \<^verbatim>\<open>ready\<close> the entry has a phone number and a QR rendering, and
  its status is ready.
\<close>

theorem line_state_invariant_witness:
  "Some \<lparr> status = error, lastQrDataUrl = None, phone = Some ''5491100000000'' \<rparr>
     \<in> set (reachable [Fire (Ev_ready (Some ''5491100000000'')), Fire (Ev_disconnected Restart_throws),
                        Resume 1, Resume 0, Resume 1])
   \<and> error \<in> {ready, loading, authenticated, error}
   \<and> Some \<lparr> status = ready, lastQrDataUrl = Some ''data:image/png;base64,AA'', phone = Some ''5491100000000'' \<rparr>
     \<in> set (reachable [Fire (Ev_qr (Some ''data:image/png;base64,AA'')), Resume 0, Fire Ev_authenticated,
                        Fire (Ev_ready (Some ''5491100000000'')), Resume 2])
   \<and> ready \<in> {qr, loading, authenticated, ready, error}"
proof -
  have m1: "Some \<lparr> status = error, lastQrDataUrl = None, phone = Some ''5491100000000'' \<rparr>
     \<in> set (reachable [Fire (Ev_ready (Some ''5491100000000'')), Fire (Ev_disconnected Restart_throws),
                        Resume 1, Resume 0, Resume 1])"
    by code_simp
  have m2: "Some \<lparr> status = ready, lastQrDataUrl = Some ''data:image/png;base64,AA'', phone = Some ''5491100000000'' \<rparr>
     \<in> set (reachable [Fire (Ev_qr (Some ''data:image/png;base64,AA'')), Resume 0, Fire Ev_authenticated,
                        Fire (Ev_ready (Some ''5491100000000'')), Resume 2])"
    by code_simp
  from line_state_invariant [of "[Fire (Ev_ready (Some ''5491100000000'')), Fire (Ev_disconnected Restart_throws),
                        Resume 1, Resume 0, Resume 1]"] m1
  have c1: "error \<in> {ready, loading, authenticated, error}" by fastforce
  from line_state_invariant [of "[Fire (Ev_qr (Some ''data:image/png;base64,AA'')), Resume 0, Fire Ev_authenticated,
                        Fire (Ev_ready (Some ''5491100000000'')), Resume 2]"] m2
  have c2: "ready \<in> {qr, loading, authenticated, ready, error}" by fastforce
  from m1 c1 m2 c2 show ?thesis by blast
qed

text \<open>
  Claim C6 as stated fails: after \<^verbatim>\<open>qr\<close> and \<^verbatim>\<open>authenticated\<close> the QR rendering is
  still there and the status is authenticated, not qr; after \<^verbatim>\<open>ready\<close> and
  \<^verbatim>\<open>loading_screen\<close> the phone number is still there and the status is loading,
  not ready; and when a \<^verbatim>\<open>ready\<close> handler that waited stores its number on a line
  that is restarting and the restart throws, the phone number is there and the
  status is error.
\<close>

theorem line_state_counterexample:
  "Some \<lparr> status = authenticated, lastQrDataUrl = Some ''data:image/png;base64,AA'', phone = None \<rparr>
     \<in> set (reachable [Fire (Ev_qr (Some ''data:image/png;base64,AA'')), Resume 0, Fire Ev_authenticated]) \<and>
   Some \<lparr> status = loading, lastQrDataUrl = None, phone = Some ''5491100000000'' \<rparr>
     \<in> set (reachable [Fire (Ev_ready (Some ''5491100000000'')), Resume 0, Fire Ev_loading_screen]) \<and>
   Some \<lparr> status = error, lastQrDataUrl = None, phone = Some ''5491100000000'' \<rparr>
     \<in> set (reachable [Fire (Ev_ready (Some ''5491100000000'')), Fire (Ev_disconnected Restart_throws),
                        Resume 1, Resume 0, Resume 1])"
  by code_simp

section \<open>Properties of the amount-normalisation rules\<close>

text \<open>
  Claim C9: an amount that the triple-zero rule or the Mercado Pago times 1000 rule
  (in either of its two places) multiplies never exceeds 10000000 afterwards, and an
  amount whose product would exceed 10000000 is left as it is.  (The rules only
  multiply amounts below 1000.)
\<close>

theorem multiply_rules_bounded:
  assumes "amount rs = Some a"
  shows "(amount (rule_triple_zero combined rs) = Some a \<or>
          amount (rule_triple_zero combined rs) = Some (a * 1000) \<and> a * 1000 \<le> 10000000) \<and>
         (amount (rule_mp_x1000 mp_force k combined rs) = Some a \<or>
          amount (rule_mp_x1000 mp_force k combined rs) = Some (a * 1000) \<and> a * 1000 \<le> 10000000) \<and>
         (a * 1000 > 10000000 \<longrightarrow>
            amount (rule_triple_zero combined rs) = Some a \<and>
            amount (rule_mp_x1000 mp_force k combined rs) = Some a)"
  using assms by (auto simp: rule_triple_zero_def rule_mp_x1000_def)


text \<open>The bound at work: 999.99 under Mercado Pago becomes 999990.\<close>

theorem multiply_rules_bounded_witness:
  "amount \<lparr> score = 8, amount = Some (99999 / 100), provider = Some ''Mercado Pago'' \<rparr> = Some (99999 / 100) \<and>
   amount (rule_mp_x1000 True 10 ''Mercado Pago''
             \<lparr> score = 8, amount = Some (99999 / 100), provider = Some ''Mercado Pago'' \<rparr>) = Some 999990 \<and>
   (999990 :: rat) \<le> 10000000"
proof -
  have mp: "IS_MP ''Mercado Pago''" by code_simp
  show ?thesis
    using multiply_rules_bounded [of "\<lparr> score = 8, amount = Some (99999 / 100), provider = Some ''Mercado Pago'' \<rparr>"
                                     "99999 / 100" "''Mercado Pago''" True 10] mp
    by (simp add: rule_mp_x1000_def)
qed

section \<open>Properties of the visual fallback\<close>

lemma tile_number_pos: "tile_number h v0 = Some w \<Longrightarrow> 0 < w"
  by (auto simp: tile_number_def Let_def split: option.splits if_splits)

lemma read_text_pos: "read_text t = Some w \<Longrightarrow> 0 < w"
  by (auto simp: read_text_def Let_def split: option.splits if_splits dest: tile_number_pos)

lemma readPiece_pos: "readPiece o1 ps = Some w \<Longrightarrow> 0 < w"
  by (induction ps) (auto split: option.splits dest: read_text_pos)

lemma pipelines_loop_None: "pipelines_loop o2 ps None = Some w \<Longrightarrow> 0 < w"
  by (induction ps) (auto simp: max_or_def falsy_def split: option.splits if_splits)

lemma tile_value_pos: "tile_value tile_ok ocr r c = Some w \<Longrightarrow> 0 < w"
  by (auto simp: tile_value_def split: if_splits dest: pipelines_loop_None)

lemma cols_loop_done: "0 < w \<Longrightarrow> cols_loop ok1 o3 cols (Some w) = Some w"
  by (cases cols) (simp_all add: falsy_def)

lemma cols_loop_first:
  "cols_loop ok1 o3 cols None =
     first_value (map (\<lambda>c. if ok1 c then pipelines_loop (o3 c) pipelines None else None) cols)"
proof (induction cols)
  case Nil
  then show ?case by simp
next
  case (Cons c cols)
  show ?case
  proof (cases "ok1 c")
    case False
    with Cons show ?thesis by (simp add: falsy_def)
  next
    case True
    show ?thesis
    proof (cases "pipelines_loop (o3 c) pipelines None")
      case None
      with True Cons show ?thesis by (simp add: falsy_def)
    next
      case (Some w)
      then have "0 < w" by (rule pipelines_loop_None)
      with True Some show ?thesis by (simp add: falsy_def cols_loop_done)
    qed
  qed
qed

lemma cols_loop_row: "cols_loop (tile_ok r) (ocr r) COLS None = first_value (row_values tile_ok ocr r)"
  by (simp add: cols_loop_first row_values_def tile_value_def [abs_def])

lemma first_value_append:
  "first_value (xs @ ys) = (case first_value xs of None \<Rightarrow> first_value ys | Some v \<Rightarrow> Some v)"
  by (induction xs rule: first_value.induct) simp_all

lemma first_value_pos: "first_value xs = Some w \<Longrightarrow> \<forall>x \<in> set xs. \<forall>v. x = Some v \<longrightarrow> 0 < v \<Longrightarrow> 0 < w"
  by (induction xs rule: first_value.induct) auto

lemma rows_loop_done: "0 < w \<Longrightarrow> rows_loop tile_ok ocr rows (Some w) = Some w"
  by (cases rows) (simp_all add: falsy_def)

lemma row_first_pos: "first_value (row_values tile_ok ocr r) = Some w \<Longrightarrow> 0 < w"
  by (rule first_value_pos) (auto simp: row_values_def dest: tile_value_pos tile_value_pos [OF sym])

lemma rows_loop_first:
  "rows_loop tile_ok ocr rows None = first_value (concat (map (row_values tile_ok ocr) rows))"
proof (induction rows)
  case Nil
  then show ?case by simp
next
  case (Cons r rows)
  show ?case
  proof (cases "first_value (row_values tile_ok ocr r)")
    case None
    with Cons show ?thesis by (simp add: falsy_def cols_loop_row first_value_append)
  next
    case (Some w)
    then have "0 < w" by (rule row_first_pos)
    with Some show ?thesis by (simp add: falsy_def cols_loop_row first_value_append rows_loop_done)
  qed
qed

text \<open>
  Claim C4, as the code has it: \<^verbatim>\<open>tryExtractAmountFromImage\<close> returns the value of the
  first tile, in the order row by row, that yields a positive normalised value (the
  loops over rows and columns stop as soon as \<^verbatim>\<open>best\<close> is set), or null when no
  tile yields one; it returns null without looking at any tile when the image
  library is not loaded or the type is not jpeg, png or webp.
\<close>

theorem visual_fallback_first_tile:
  "tryExtractAmountFromImage sharp mimetype tile_ok ocr =
     (if sharp \<and> rx_test True RE_IMAGE_JPG mimetype then first_value (tile_values tile_ok ocr) else None) \<and>
   (\<forall>v. tryExtractAmountFromImage sharp mimetype tile_ok ocr = Some v \<longrightarrow> 0 < v)"
proof -
  have eq: "tryExtractAmountFromImage sharp mimetype tile_ok ocr =
     (if sharp \<and> rx_test True RE_IMAGE_JPG mimetype then first_value (tile_values tile_ok ocr) else None)"
    by (simp add: tryExtractAmountFromImage_def rows_loop_first tile_values_def)
  have pos: "0 < v" if "first_value (tile_values tile_ok ocr) = Some v" for v
    using that by (rule first_value_pos) (auto simp: tile_values_def row_values_def dest: tile_value_pos tile_value_pos [OF sym])
  from eq pos show ?thesis by (auto split: if_splits)
qed

text \<open>On the image with two readable tiles the value is that of the first tile.\<close>

theorem visual_fallback_first_tile_witness:
  "tryExtractAmountFromImage True ''image/png'' all_tiles_ok two_tile_ocr = Some 12 \<and>
   first_value (tile_values all_tiles_ok two_tile_ocr) = Some 12 \<and> (0 :: rat) < 12"
proof -
  have v: "first_value (tile_values all_tiles_ok two_tile_ocr) = Some 12" by code_simp
  have m: "rx_test True RE_IMAGE_JPG ''image/png''" by code_simp
  show ?thesis
    using visual_fallback_first_tile [of True "''image/png''" all_tiles_ok two_tile_ocr] v m by simp
qed

text \<open>
  Claim C4 as stated fails: on that image the fallback returns 12, the value of the
  first tile, and the maximum across the tiles is 500.
\<close>

theorem visual_fallback_counterexample:
  "tryExtractAmountFromImage True ''image/png'' all_tiles_ok two_tile_ocr = Some 12 \<and>
   visual_amount_fallback_spec True ''image/png'' all_tiles_ok two_tile_ocr = Some 500"
  by code_simp

section \<open>Properties of the Mercado Pago rule\<close>

text \<open>
  Claim C5, as the code has it: with \<^verbatim>\<open>MP_FORCE_X1000\<close> on, the Mercado Pago rule
  multiplies the amount by 1000 exactly when the combined text of the message matches
  \<^verbatim>\<open>/mercado\s*pago/i\<close> and the amount after the preceding rules satisfies
  0 < amount < 1000; then the score becomes the larger of the score and 10, so it is
  at least 10, and the provider becomes Mercado Pago when the scorer found none (null
  or the empty string) and stays what it is otherwise.  In every other case the rule
  changes nothing.  The provider that the scorer found plays no part in whether the
  rule applies.
\<close>

theorem mp_rule_follows_text:
  "(\<forall>a. amount rs = Some a \<longrightarrow>
      (IS_MP combined \<and> 0 < a \<and> a < 1000 \<longrightarrow>
         amount (rule_mp_x1000 True 10 combined rs) = Some (a * 1000) \<and>
         score (rule_mp_x1000 True 10 combined rs) = max (score rs) 10 \<and>
         10 \<le> score (rule_mp_x1000 True 10 combined rs) \<and>
         provider (rule_mp_x1000 True 10 combined rs) =
           (if provider rs = None \<or> provider rs = Some [] then Some ''Mercado Pago'' else provider rs)) \<and>
      (\<not> (IS_MP combined \<and> 0 < a \<and> a < 1000) \<longrightarrow> rule_mp_x1000 True 10 combined rs = rs)) \<and>
   (amount rs = None \<longrightarrow> rule_mp_x1000 True 10 combined rs = rs)"
  by (auto simp: rule_mp_x1000_def provider_or_mp_def or_null_def split: option.splits)

text \<open>The rule at work on a text that names Mercado Pago, with no provider and with
  one, and on a text that does not name it.\<close>

theorem mp_rule_follows_text_witness:
  "rule_mp_x1000 True 10 ''Mercado Pago $ 500'' \<lparr> score = 8, amount = Some 500, provider = None \<rparr>
     = \<lparr> score = 10, amount = Some 500000, provider = Some ''Mercado Pago'' \<rparr> \<and>
   rule_mp_x1000 True 10 ''Mercado Pago $ 500'' \<lparr> score = 11, amount = Some 500, provider = Some ''Galicia'' \<rparr>
     = \<lparr> score = 11, amount = Some 500000, provider = Some ''Galicia'' \<rparr> \<and>
   rule_mp_x1000 True 10 ''Pagaste $ 500'' \<lparr> score = 8, amount = Some 500, provider = Some ''Mercado Pago'' \<rparr>
     = \<lparr> score = 8, amount = Some 500, provider = Some ''Mercado Pago'' \<rparr> \<and>
   rule_mp_x1000 True 10 ''Mercado Pago'' \<lparr> score = 2, amount = None, provider = None \<rparr>
     = \<lparr> score = 2, amount = None, provider = None \<rparr>"
proof -
  have t1: "IS_MP ''Mercado Pago $ 500''" by code_simp
  have t2: "\<not> IS_MP ''Pagaste $ 500''" by code_simp
  let ?r1 = "rule_mp_x1000 True 10 ''Mercado Pago $ 500'' \<lparr> score = 8, amount = Some 500, provider = None \<rparr>"
  let ?r2 = "rule_mp_x1000 True 10 ''Mercado Pago $ 500'' \<lparr> score = 11, amount = Some 500, provider = Some ''Galicia'' \<rparr>"
  from mp_rule_follows_text [of "\<lparr> score = 8, amount = Some 500, provider = None \<rparr>" "''Mercado Pago $ 500''"] t1
  have a1: "amount ?r1 = Some 500000 \<and> score ?r1 = 10 \<and> provider ?r1 = Some ''Mercado Pago''"
    by simp
  from mp_rule_follows_text [of "\<lparr> score = 11, amount = Some 500, provider = Some ''Galicia'' \<rparr>" "''Mercado Pago $ 500''"] t1
  have a2: "amount ?r2 = Some 500000 \<and> score ?r2 = 11 \<and> provider ?r2 = Some ''Galicia''"
    by simp
  from mp_rule_follows_text [of "\<lparr> score = 8, amount = Some 500, provider = Some ''Mercado Pago'' \<rparr>" "''Pagaste $ 500''"] t2
  have a3: "rule_mp_x1000 True 10 ''Pagaste $ 500'' \<lparr> score = 8, amount = Some 500, provider = Some ''Mercado Pago'' \<rparr>
     = \<lparr> score = 8, amount = Some 500, provider = Some ''Mercado Pago'' \<rparr>"
    by simp
  from mp_rule_follows_text [of "\<lparr> score = 2, amount = None, provider = None \<rparr>" "''Mercado Pago''"]
  have a4: "rule_mp_x1000 True 10 ''Mercado Pago'' \<lparr> score = 2, amount = None, provider = None \<rparr>
     = \<lparr> score = 2, amount = None, provider = None \<rparr>"
    by simp
  have e1: "?r1 = \<lparr> score = 10, amount = Some 500000, provider = Some ''Mercado Pago'' \<rparr>"
    using a1 by (cases ?r1) simp
  have e2: "?r2 = \<lparr> score = 11, amount = Some 500000, provider = Some ''Galicia'' \<rparr>"
    using a2 by (cases ?r2) simp
  from e1 e2 a3 a4 show ?thesis by blast
qed

text \<open>
  Claim C5 as stated fails: for the text \<^verbatim>\<open>Pagaste\<close>, \<^verbatim>\<open>$ 500\<close> (two lines) the
  scorer's provider is Mercado Pago and the amount after the preceding rules is 500,
  yet the rule, with the flag on, leaves the amount at 500.
\<close>

theorem mp_rule_counterexample:
  "rule_triple_zero (''Pagaste'' @ [CHR 0x0A] @ ''$ 500'')
     (rule_safety (''Pagaste'' @ [CHR 0x0A] @ ''$ 500'')
        (scoreReceiptText (''Pagaste'' @ [CHR 0x0A] @ ''$ 500'')))
     = \<lparr> score = 8, amount = Some 500, provider = Some ''Mercado Pago'' \<rparr> \<and>
   rule_mp_x1000 True 10 (''Pagaste'' @ [CHR 0x0A] @ ''$ 500'')
     \<lparr> score = 8, amount = Some 500, provider = Some ''Mercado Pago'' \<rparr>
     = \<lparr> score = 8, amount = Some 500, provider = Some ''Mercado Pago'' \<rparr>"
  by code_simp

section \<open>Evaluations of the Template Parser and the Field Extractor\<close>

text \<open>
  Claim C2 says that the Template Parser returns the maximum of the candidates of all
  lines.  \<^verbatim>\<open>_normTextForTpl\<close> has turned the line feeds into spaces before
  \<^verbatim>\<open>parseByTemplate\<close> splits at line feeds, so the loop over the lines sees one
  line and takes its first \<^verbatim>\<open>$\<close>-led number: for the text \<^verbatim>\<open>Pagaste\<close>,
  \<^verbatim>\<open>$ 100\<close>, \<^verbatim>\<open>Total $ 2.500\<close> (three lines) the parser returns 100, where the
  line \<^verbatim>\<open>Total $ 2.500\<close> alone gives the candidate 2500.
\<close>

theorem parseByTemplate_first_not_max:
  "normTextForTpl (''Pagaste'' @ [CHR 0x0A] @ ''$ 100'' @ [CHR 0x0A] @ ''Total $ 2.500'')
     = ''Pagaste $ 100 Total $ 2.500'' \<and>
   parseByTemplate (''Pagaste'' @ [CHR 0x0A] @ ''$ 100'' @ [CHR 0x0A] @ ''Total $ 2.500'')
     = Some (''Mercado Pago'', 100) \<and>
   extractAmountFromLine ''$ 100'' = Some 100 \<and>
   extractAmountFromLine ''Total $ 2.500'' = Some 2500"
  by code_simp

text \<open>
  Claim C3 says that a text with the line \<^verbatim>\<open>Referencia: AB-12\<close> yields the reference
  \<^verbatim>\<open>AB-12\<close>.  \<^verbatim>\<open>RE_REF\<close> has the \<^verbatim>\<open>g\<close> flag, so \<^verbatim>\<open>norm.match(RE_REF)\<close> is the
  array of the whole matches and \<^verbatim>\<open>mRef[2]\<close> is its third element: for the first
  scenario of the specification the array has one element and the reference is
  \<^verbatim>\<open>undefined\<close>, stored as \<^verbatim>\<open>null\<close>; the same holds for the operation number.
\<close>

theorem reference_not_extracted:
  "rx_match_g True RE_REF
     (normTextForTpl (''Mercado Pago'' @ [CHR 0x0A] @ ''Pagaste'' @ [CHR 0x0A] @ ''$ 15.000,00'' @ [CHR 0x0A] @ ''Referencia: AB-12''))
     = Some [''Referencia: AB-12''] \<and>
   extractReceiptFields_reference
     (''Mercado Pago'' @ [CHR 0x0A] @ ''Pagaste'' @ [CHR 0x0A] @ ''$ 15.000,00'' @ [CHR 0x0A] @ ''Referencia: AB-12'')
     = None \<and>
   conv_reference
     (conversion_of cx md
        (''Mercado Pago'' @ [CHR 0x0A] @ ''Pagaste'' @ [CHR 0x0A] @ ''$ 15.000,00'' @ [CHR 0x0A] @ ''Referencia: AB-12'')
        (Some 15000) file_url)
     = None \<and>
   extractReceiptFields_transaction ''Operacion: 12345'' = None \<and>
   extractReceiptFields_reference ''ref: A1 cod: B2 ref: C3'' = Some ''ref: C3''"
proof -
  have m: "rx_match_g True RE_REF
     (normTextForTpl (''Mercado Pago'' @ [CHR 0x0A] @ ''Pagaste'' @ [CHR 0x0A] @ ''$ 15.000,00'' @ [CHR 0x0A] @ ''Referencia: AB-12''))
     = Some [''Referencia: AB-12'']"
    by code_simp
  have r: "extractReceiptFields_reference
     (''Mercado Pago'' @ [CHR 0x0A] @ ''Pagaste'' @ [CHR 0x0A] @ ''$ 15.000,00'' @ [CHR 0x0A] @ ''Referencia: AB-12'')
     = None"
    by code_simp
  have t: "extractReceiptFields_transaction ''Operacion: 12345'' = None" by code_simp
  have u: "extractReceiptFields_reference ''ref: A1 cod: B2 ref: C3'' = Some ''ref: C3''" by code_simp
  from m r t u show ?thesis by (simp add: conversion_of_def or_null_def)
qed

section \<open>Properties of the Inbound Router\<close>

lemma delta_refl: "delta 0 0 0 s s"
  by (simp add: delta_def)

lemma delta_trans: "delta c l v s s' \<Longrightarrow> delta c' l' v' s' s'' \<Longrightarrow> delta (c + c') (l + l') (v + v') s s''"
  by (auto simp: delta_def)

lemma delta_mono: "delta c l v s s' \<Longrightarrow> c \<le> c' \<Longrightarrow> l \<le> l' \<Longrightarrow> v \<le> v' \<Longrightarrow> delta c' l' v' s s'"
  by (auto simp: delta_def)

lemma delta_and_then:
  assumes "delta c l v s (state_of f)" and "\<And>s1. delta c' l' v' s1 (state_of (k s1))"
  shows "delta (c + c') (l + l') (v + v') s (state_of (and_then f k))"
proof (cases f)
  case (Go s1)
  with assms(1) have "delta c l v s s1" by (simp add: state_of_def)
  from delta_trans [OF this assms(2) [of s1]] Go show ?thesis by (simp add: and_then_def)
next
  case (Halt s1)
  with assms(1) have "delta c l v s s1" by (simp add: state_of_def)
  from delta_mono [OF this] Halt show ?thesis by (simp add: and_then_def state_of_def)
qed

lemma delta_say: "delta 0 0 0 s (say l s)"
  by (simp add: delta_def say_def)

lemma delta_chat: "delta 1 0 0 s (state_of (checked_write r t (insert_chat cx msg) s))"
  by (cases r) (simp_all add: checked_write_def state_of_def delta_def insert_chat_def say_def)

lemma delta_agenda: "delta 0 0 0 s (state_of (checked_write r t (set_agenda cx st) s))"
  by (cases r) (simp_all add: checked_write_def state_of_def delta_def set_agenda_def say_def)

lemma upsert_lead_length:
  "length (upsert_lead x ys) =
     (if lead_exists (lead_project_id x) (lead_contact x) ys then length ys else length ys + 1)"
  by (induction ys) (auto simp: lead_exists_def)

lemma delta_lead_once_new:
  "delta 0 0 0 s (lead_once cx w s) \<or>
   (delta 0 1 0 s (lead_once cx w s) \<and>
    lead_exists (cx_project_id cx) (cx_contact cx) (analytics_leads (lead_once cx w s)))"
  by (cases "w_lead_select w"; cases "w_lead_insert w")
     (auto simp: lead_once_def delta_def insert_lead_def say_def lead_exists_def)

lemma delta_lead_trigger:
  "delta 0 (if lead_exists (cx_project_id cx) (cx_contact cx) (analytics_leads s) then 0 else 1) 0
         s (lead_trigger cx msg w s)"
  by (cases "w_lead_upsert w") (auto simp: lead_trigger_def delta_def upsert_lead_length)

lemma delta_capi: "delta 0 0 0 s (capi_event cx n v s)"
  by (simp add: capi_event_def delta_def)

lemma delta_leads: "delta 0 1 0 s (state_of (leads_and_events cx msg w s))"
proof -
  let ?s1 = "lead_once cx w s"
  let ?s2 = "lead_trigger cx msg w ?s1"
  have "delta 0 1 0 s ?s2"
    using delta_lead_once_new [of s cx w] delta_lead_trigger [of cx ?s1 msg w]
    by (auto simp: delta_def split: if_splits)
  from delta_trans [OF this delta_capi [of ?s2 cx "''Lead''" None]]
  show ?thesis by (simp add: leads_and_events_def state_of_def)
qed

lemma upload_quiet: "delta 0 0 0 s (snd (upload cx md w s))"
  by (cases "w_upload w") (simp_all add: upload_def delta_def say_def)

lemma delta_save: "delta 0 0 1 s (state_of (saveReceiptAndCreateConversion cx md t fa w s))"
proof -
  let ?u = "snd (upload cx md w s)"
  have a: "delta 0 0 1 ?u (state_of (checked_write (w_conv_insert w) ''analytics_conversions''
             (insert_conversion (conversion_of cx md t fa (fst (upload cx md w s)))) ?u))"
    by (cases "w_conv_insert w")
       (simp_all add: checked_write_def state_of_def delta_def insert_conversion_def say_def)
  from delta_trans [OF upload_quiet a]
  have b: "delta 0 0 1 s (state_of (checked_write (w_conv_insert w) ''analytics_conversions''
             (insert_conversion (conversion_of cx md t fa (fst (upload cx md w s)))) ?u))"
    by simp
  from delta_and_then [OF b delta_agenda]
  show ?thesis by (simp add: saveReceiptAndCreateConversion_def)
qed

lemma delta_agenda_update: "delta 0 0 0 s (state_of (agenda_update cx w s))"
  by (cases "w_agenda_update w") (simp_all add: agenda_update_def state_of_def delta_def)

lemma delta_after: "delta 0 0 0 s (state_of (after_conversion cx rs s))"
  by (simp add: after_conversion_def state_of_def capi_event_def delta_def say_def)

lemma delta_gate: "delta 0 0 1 s (state_of (gate_step cx md t rs w s))"
proof (cases "accept rs")
  case True
  from delta_and_then [OF delta_and_then [OF delta_save delta_agenda_update] delta_after]
  have "delta 0 0 1 s (state_of (and_then (and_then (saveReceiptAndCreateConversion cx md t (amount rs) w s)
                                                    (agenda_update cx w)) (after_conversion cx rs)))"
    by simp
  with True show ?thesis by (simp add: gate_step_def)
next
  case False
  then show ?thesis by (simp add: gate_step_def state_of_def delta_def say_def)
qed

lemma delta_receipt: "delta 0 0 1 s (state_of (receipt_step cx msg w s))"
  using delta_gate delta_mono [OF delta_refl, of 0 0 1 s]
  by (auto simp: receipt_step_def scoring_step_def state_of_def split: option.splits)

lemma delta_registered: "delta 0 0 0 s (state_of (registered s))"
  by (simp add: registered_def state_of_def delta_say)


lemma delta_track: "delta 1 1 1 s (state_of (track msg w s))"
proof (cases "resolve_ctx w msg")
  case None
  then show ?thesis using delta_mono [OF delta_refl, of 1 1 1 s] by (simp add: track_def state_of_def)
next
  case (Some cx)
  from delta_and_then [OF delta_and_then [OF delta_and_then [OF delta_and_then [OF delta_chat delta_agenda] delta_leads] delta_receipt] delta_registered]
  show ?thesis using Some by (simp add: track_def)
qed


lemma seen_hit: "or_null (msg_id msg) = Some key \<Longrightarrow> key \<in> seenMsgs s \<Longrightarrow> handle msg w s = Go s"
  by (simp add: handle_def)

lemma handle_seen:
  assumes "or_null (msg_id msg) = Some key"
  shows "seenMsgs (state_of (handle msg w s)) = insert key (seenMsgs s)"
proof (cases "key \<in> seenMsgs s")
  case True
  with assms show ?thesis by (auto simp: handle_def state_of_def)
next
  case False
  have "seenMsgs (state_of (track msg w (s\<lparr> seenMsgs := insert key (seenMsgs s) \<rparr>))) = insert key (seenMsgs s)"
    using delta_track [of "s\<lparr> seenMsgs := insert key (seenMsgs s) \<rparr>" msg w] by (simp add: delta_def)
  with assms False show ?thesis by (simp add: handle_def state_of_def)
qed

lemma handle_seen_mono: "seenMsgs s \<subseteq> seenMsgs (state_of (handle msg w s))"
proof (cases "or_null (msg_id msg)")
  case None
  then show ?thesis by (simp add: handle_def state_of_def)
next
  case (Some key)
  from handle_seen [OF this] show ?thesis by auto
qed

lemma record_seen: "seenMsgs (recordIncomingChat msg w s) = seenMsgs (state_of (handle msg w s))"
  by (cases "handle msg w s") (simp_all add: recordIncomingChat_def state_of_def say_def)







text \<open>
  Claim C10: the ID of a message is put into the seen-set before any step that can
  fail, and no delivery takes an ID out of the set.  So whatever the world answers,
  the ID is in the set afterwards; and when the handling throws (it ends in the
  outer \<^verbatim>\<open>catch\<close>), the state it leaves has the ID in the set and a later delivery
  of the same message is skipped without a retry.
\<close>

theorem failed_message_is_consumed:
  "seenMsgs s \<subseteq> seenMsgs (recordIncomingChat msg w s) \<and>
   (or_null (msg_id msg) = Some key \<longrightarrow>
      key \<in> seenMsgs (recordIncomingChat msg w s) \<and>
      (\<forall>s'. handle msg w s = Halt s' \<longrightarrow>
         seenMsgs s' = insert key (seenMsgs s) \<and>
         handle msg w2 (recordIncomingChat msg w s) = Go (recordIncomingChat msg w s)))"
proof -
  have a: "seenMsgs s \<subseteq> seenMsgs (recordIncomingChat msg w s)"
    using handle_seen_mono [of s msg w] by (simp add: record_seen)
  have b: "key \<in> seenMsgs (recordIncomingChat msg w s)" if "or_null (msg_id msg) = Some key"
    using handle_seen [OF that, of w s] by (simp add: record_seen)
  have c: "seenMsgs s' = insert key (seenMsgs s)"
    if "or_null (msg_id msg) = Some key" "handle msg w s = Halt s'" for s'
    using handle_seen [OF that(1), of w s] that(2) by (simp add: state_of_def)
  have d: "handle msg w2 (recordIncomingChat msg w s) = Go (recordIncomingChat msg w s)"
    if "or_null (msg_id msg) = Some key"
    using seen_hit [OF that b [OF that]] .
  from a b c d show ?thesis by blast
qed

text \<open>The text message \<^verbatim>\<open>hola\<close> in a world where the insert of the chat row throws:
  no row is written, the ID is in the seen-set, the second delivery is skipped.\<close>

theorem failed_message_is_consumed_witness:
  "or_null (msg_id hola_msg) = Some ''false_5491100000000@c.us_3EB0A1'' \<and>
   handle hola_msg throwing_world empty_sys
     = Halt (empty_sys\<lparr> seenMsgs := {''false_5491100000000@c.us_3EB0A1''} \<rparr>) \<and>
   analytics_chats (recordIncomingChat hola_msg throwing_world empty_sys) = [] \<and>
   ''false_5491100000000@c.us_3EB0A1'' \<in> seenMsgs (recordIncomingChat hola_msg throwing_world empty_sys) \<and>
   handle hola_msg calm_world (recordIncomingChat hola_msg throwing_world empty_sys)
     = Go (recordIncomingChat hola_msg throwing_world empty_sys)"
proof -
  have k: "or_null (msg_id hola_msg) = Some ''false_5491100000000@c.us_3EB0A1''" by code_simp
  have e: "ends_with ''@c.us'' (toLowerCase (msg_from hola_msg))" by code_simp
  have r: "resolve_ctx throwing_world hola_msg = Some hola_ctx" by code_simp
  have h: "handle hola_msg throwing_world empty_sys
     = Halt (empty_sys\<lparr> seenMsgs := {''false_5491100000000@c.us_3EB0A1''} \<rparr>)"
    using k e r
    by (simp add: handle_def track_def checked_write_def and_then_def throwing_world_def
                  empty_sys_def hola_msg_def)
  from failed_message_is_consumed [of empty_sys hola_msg throwing_world "''false_5491100000000@c.us_3EB0A1''" calm_world]
       k h
  show ?thesis by (simp add: recordIncomingChat_def say_def empty_sys_def)
qed


section \<open>Properties of the receipt gate\<close>

lemma accept_iff: "accept rs \<longleftrightarrow> 4 \<le> score rs \<and> (\<exists>a. amount rs = Some a \<and> 0 < a)"
  by (auto simp: accept_def split: option.splits)

lemma agenda_status_upsert:
  "agenda_status (ag_project_id x) (ag_contact x) (upsert_agenda x rows) = Some (ag_status x)"
  by (induction rows) (auto simp: agenda_status_def)

lemma agenda_status_update:
  "agenda_status pid c rows = Some st0 \<Longrightarrow>
   agenda_status pid c (update_agenda_status pid c st rows) = Some st"
  by (induction rows) (auto simp: agenda_status_def update_agenda_status_def split: if_splits)

lemma upload_tables:
  "analytics_conversions (snd (upload cx md w s)) = analytics_conversions s \<and>
   agenda (snd (upload cx md w s)) = agenda s"
  by (cases "w_upload w") (simp_all add: upload_def say_def)

lemma gate_rejects:
  "\<not> accept rs \<Longrightarrow>
   gate_step cx md t rs w s = Go (s\<lparr> console := console s @ [Log_ignored (score rs) (amount rs)] \<rparr>)"
  by (simp add: gate_step_def say_def)

lemma gate_accepts:
  assumes "accept rs" "w_conv_insert w = Done ()" "w_agenda_conv w = Done ()" "w_agenda_update w = Done ()"
  shows "analytics_conversions (state_of (gate_step cx md t rs w s))
           = analytics_conversions s @ [conversion_of cx md t (amount rs) (fst (upload cx md w s))] \<and>
         agenda_status (cx_project_id cx) (cx_contact cx) (agenda (state_of (gate_step cx md t rs w s)))
           = Some ''conversion''"
proof -
  let ?row = "\<lparr> ag_project_id = cx_project_id cx, ag_contact = cx_contact cx, ag_status = ''conversion'' \<rparr>"
  have "agenda_status (cx_project_id cx) (cx_contact cx) (upsert_agenda ?row (agenda s)) = Some ''conversion''"
    using agenda_status_upsert [of ?row "agenda s"] by simp
  then have "agenda_status (cx_project_id cx) (cx_contact cx)
               (update_agenda_status (cx_project_id cx) (cx_contact cx) ''conversion''
                  (upsert_agenda ?row (agenda s))) = Some ''conversion''"
    by (rule agenda_status_update)
  with assms upload_tables [of cx md w s] show ?thesis
    by (simp add: gate_step_def saveReceiptAndCreateConversion_def checked_write_def and_then_def
                  agenda_update_def after_conversion_def capi_event_def say_def state_of_def
                  insert_conversion_def set_agenda_def)
qed

text \<open>
  Claim C1: for a media message that reaches the scoring step, with the score and the
  amount taken after the amount-normalisation rules, the gate is passed if and only
  if the score is at least 4 and the amount is a positive number.  When the gate
  fails the only effect is the log line of the rejection: no conversion, no upload,
  no change of the agenda.  When the gate is passed and the store takes the writes,
  one conversion row with that amount is added and the agenda row of the contact
  has status conversion; a conversion row is never added without the gate.
\<close>

theorem receipt_gate:
  "(accept (normalized md combined w) \<longleftrightarrow>
      4 \<le> score (normalized md combined w) \<and> (\<exists>a. amount (normalized md combined w) = Some a \<and> 0 < a)) \<and>
   (\<not> accept (normalized md combined w) \<longrightarrow>
      scoring_step cx md combined w s =
        Go (s\<lparr> console := console s @
                 [Log_ignored (score (normalized md combined w)) (amount (normalized md combined w))] \<rparr>)) \<and>
   (accept (normalized md combined w) \<and>
    w_conv_insert w = Done () \<and> w_agenda_conv w = Done () \<and> w_agenda_update w = Done () \<longrightarrow>
      analytics_conversions (state_of (scoring_step cx md combined w s))
        = analytics_conversions s @
            [conversion_of cx md combined (amount (normalized md combined w)) (fst (upload cx md w s))] \<and>
      conv_amount (conversion_of cx md combined (amount (normalized md combined w)) (fst (upload cx md w s)))
        = amount (normalized md combined w) \<and>
      agenda_status (cx_project_id cx) (cx_contact cx) (agenda (state_of (scoring_step cx md combined w s)))
        = Some ''conversion'') \<and>
   (analytics_conversions (state_of (scoring_step cx md combined w s)) \<noteq> analytics_conversions s \<longrightarrow>
      accept (normalized md combined w))"
proof -
  let ?n = "normalized md combined w"
  have a: "accept ?n \<longleftrightarrow> 4 \<le> score ?n \<and> (\<exists>a. amount ?n = Some a \<and> 0 < a)"
    by (rule accept_iff)
  have b: "scoring_step cx md combined w s =
             Go (s\<lparr> console := console s @ [Log_ignored (score ?n) (amount ?n)] \<rparr>)"
    if "\<not> accept ?n"
    using that by (simp add: scoring_step_def gate_rejects)
  have c: "analytics_conversions (state_of (scoring_step cx md combined w s))
             = analytics_conversions s @ [conversion_of cx md combined (amount ?n) (fst (upload cx md w s))] \<and>
           agenda_status (cx_project_id cx) (cx_contact cx) (agenda (state_of (scoring_step cx md combined w s)))
             = Some ''conversion''"
    if "accept ?n" "w_conv_insert w = Done ()" "w_agenda_conv w = Done ()" "w_agenda_update w = Done ()"
    using gate_accepts [OF that] by (simp add: scoring_step_def)
  have d: "conv_amount (conversion_of cx md combined (amount ?n) (fst (upload cx md w s))) = amount ?n"
    if "accept ?n"
    using that by (auto simp: conversion_of_def accept_def split: option.splits)
  have e: "accept ?n"
    if "analytics_conversions (state_of (scoring_step cx md combined w s)) \<noteq> analytics_conversions s"
  proof (rule ccontr)
    assume "\<not> accept ?n"
    from b [OF this] that show False by (simp add: state_of_def)
  qed
  from a b c d e show ?thesis by blast
qed

text \<open>The gate at work: the recognised text \<^verbatim>\<open>Pagaste $ 500\<close> scores 8 with amount 500
  and gives a conversion of 500; the text \<^verbatim>\<open>hola\<close> scores 0 and is only logged.\<close>

theorem receipt_gate_witness:
  "normalized png_media ''Pagaste $ 500'' calm_world
     = \<lparr> score = 8, amount = Some 500, provider = Some ''Mercado Pago'' \<rparr> \<and>
   accept (normalized png_media ''Pagaste $ 500'' calm_world) \<and>
   w_conv_insert calm_world = Done () \<and> w_agenda_conv calm_world = Done () \<and>
   w_agenda_update calm_world = Done () \<and>
   map conv_amount (analytics_conversions (state_of (scoring_step hola_ctx png_media ''Pagaste $ 500'' calm_world empty_sys)))
     = [Some 500] \<and>
   agenda_status (Some ''p1'') ''5491100000000''
     (agenda (state_of (scoring_step hola_ctx png_media ''Pagaste $ 500'' calm_world empty_sys)))
     = Some ''conversion'' \<and>
   \<not> accept (normalized png_media ''hola'' calm_world) \<and>
   scoring_step hola_ctx png_media ''hola'' calm_world empty_sys
     = Go (empty_sys\<lparr> console := [Log_ignored 0 None] \<rparr>)"
proof -
  have n1: "normalized png_media ''Pagaste $ 500'' calm_world
     = \<lparr> score = 8, amount = Some 500, provider = Some ''Mercado Pago'' \<rparr>" by code_simp
  have n2: "normalized png_media ''hola'' calm_world = \<lparr> score = 0, amount = None, provider = None \<rparr>"
    by code_simp
  have a1: "accept (normalized png_media ''Pagaste $ 500'' calm_world)"
    unfolding n1 by (simp add: accept_def)
  have a2: "\<not> accept (normalized png_media ''hola'' calm_world)"
    unfolding n2 by (simp add: accept_def)
  have w: "w_conv_insert calm_world = Done ()" "w_agenda_conv calm_world = Done ()"
          "w_agenda_update calm_world = Done ()"
    by (simp_all add: calm_world_def)
  note t1 = receipt_gate [of png_media "''Pagaste $ 500''" calm_world hola_ctx empty_sys]
  note t2 = receipt_gate [of png_media "''hola''" calm_world hola_ctx empty_sys]
  have c1: "analytics_conversions (state_of (scoring_step hola_ctx png_media ''Pagaste $ 500'' calm_world empty_sys))
        = analytics_conversions empty_sys @
            [conversion_of hola_ctx png_media ''Pagaste $ 500''
               (amount (normalized png_media ''Pagaste $ 500'' calm_world))
               (fst (upload hola_ctx png_media calm_world empty_sys))]"
    using t1 a1 w by blast
  have c2: "conv_amount (conversion_of hola_ctx png_media ''Pagaste $ 500''
               (amount (normalized png_media ''Pagaste $ 500'' calm_world))
               (fst (upload hola_ctx png_media calm_world empty_sys)))
        = amount (normalized png_media ''Pagaste $ 500'' calm_world)"
    using t1 a1 w by blast
  have c3: "agenda_status (cx_project_id hola_ctx) (cx_contact hola_ctx)
     (agenda (state_of (scoring_step hola_ctx png_media ''Pagaste $ 500'' calm_world empty_sys)))
     = Some ''conversion''"
    using t1 a1 w by blast
  have c4: "scoring_step hola_ctx png_media ''hola'' calm_world empty_sys
     = Go (empty_sys\<lparr> console := console empty_sys @
             [Log_ignored (score (normalized png_media ''hola'' calm_world))
                          (amount (normalized png_media ''hola'' calm_world))] \<rparr>)"
    using t2 a2 by blast
  have m: "map conv_amount (analytics_conversions (state_of (scoring_step hola_ctx png_media ''Pagaste $ 500'' calm_world empty_sys)))
     = [Some 500]"
    unfolding c1 using c2 by (simp add: n1 empty_sys_def)
  have g: "agenda_status (Some ''p1'') ''5491100000000''
     (agenda (state_of (scoring_step hola_ctx png_media ''Pagaste $ 500'' calm_world empty_sys)))
     = Some ''conversion''"
    using c3 by (simp add: hola_ctx_def)
  have l: "scoring_step hola_ctx png_media ''hola'' calm_world empty_sys
     = Go (empty_sys\<lparr> console := [Log_ignored 0 None] \<rparr>)"
    unfolding c4 by (simp add: n2 empty_sys_def)
  from n1 a1 w m g a2 l show ?thesis by blast
qed

section \<open>Properties of the matcher\<close>















section \<open>Properties of the Amount Finder\<close>


































end
